theory Spec2Isabelle
  imports Complex_Main "HOL-Library.Multiset"
begin

section \<open>JavaScript values as the agents see them\<close>

text \<open>
  Both agents call \<^verbatim>\<open>JSON.parse\<close> on the model's reply and then read fields of the
  result without any runtime type check (the TypeScript \<^verbatim>\<open>as\<close> cast is erased), so
  a field can hold any JSON value or be absent. The numbers of JavaScript are the IEEE
  doubles: every finite double is a rational, so the finite ones are embedded in \<open>rat\<close>
  (the sign of zero is not kept: no operation below tells \<open>-0\<close> from \<open>0\<close>), and the
  three special values are constructors of their own.
\<close>

datatype jsnum = NaN | PInf | NInf | Fin rat

datatype json =
    JNull
  | JBool bool
  | JNum jsnum
  | JStr string
  | JArr "json list"
  | JObj "(string \<times> json) list"

text \<open>A property read gives \<open>None\<close> for \<^verbatim>\<open>undefined\<close> (the field is absent).\<close>

type_synonym jsval = "json option"

datatype exn = TypeError | SyntaxError | ServiceError | DbError

text \<open>\<^verbatim>\<open>ToBoolean\<close>: what \<^verbatim>\<open>!v\<close> and \<^verbatim>\<open>v || d\<close> test.\<close>

fun truthy :: "jsval \<Rightarrow> bool" where
  "truthy None = False"
| "truthy (Some JNull) = False"
| "truthy (Some (JBool b)) = b"
| "truthy (Some (JNum n)) = (n \<noteq> NaN \<and> n \<noteq> Fin 0)"
| "truthy (Some (JStr s)) = (s \<noteq> [])"
| "truthy (Some (JArr xs)) = True"
| "truthy (Some (JObj kvs)) = True"

subsection \<open>\<^verbatim>\<open>StringToNumber\<close>\<close>

text \<open>
  The grammar of \<^verbatim>\<open>StringNumericLiteral\<close>: optional white space around either nothing
  (the value is 0), a radix literal \<^verbatim>\<open>0x.. 0o.. 0b..\<close>, or an optionally signed
  \<^verbatim>\<open>Infinity\<close> or decimal literal with optional fraction and exponent. Anything else
  is \<open>NaN\<close>. The value computed is the exact value of the literal, where JavaScript
  rounds it to the nearest double: the text \<^verbatim>\<open>0.49999999999999999999\<close> is below one
  half here and is 0.5 in JavaScript. Characters are 8-bit here, so of the white space
  characters only those below 256 are trimmed. Nothing proved below rests on the value
  of a numeric text that is no double, or on white space beyond Latin-1.
\<close>

definition is_ws :: "char \<Rightarrow> bool" where
  "is_ws c = (of_char c \<in> {9, 10, 11, 12, 13, 32, 160 :: nat})"

definition trim :: "string \<Rightarrow> string" where
  "trim s = rev (dropWhile is_ws (rev (dropWhile is_ws s)))"

definition is_digit :: "char \<Rightarrow> bool" where
  "is_digit c = (48 \<le> (of_char c :: nat) \<and> (of_char c :: nat) \<le> 57)"

definition hex_val :: "char \<Rightarrow> nat option" where
  "hex_val c = (let n = (of_char c :: nat) in
     if 48 \<le> n \<and> n \<le> 57 then Some (n - 48)
     else if 97 \<le> n \<and> n \<le> 102 then Some (n - 87)
     else if 65 \<le> n \<and> n \<le> 70 then Some (n - 55)
     else None)"

definition radix_digits :: "nat \<Rightarrow> string \<Rightarrow> jsnum" where
  "radix_digits b ds =
     (if ds \<noteq> [] \<and> list_all (\<lambda>c. case hex_val c of None \<Rightarrow> False | Some d \<Rightarrow> d < b) ds
      then Fin (of_nat (foldl (\<lambda>a c. b * a + the (hex_val c)) 0 ds))
      else NaN)"

definition dec_val :: "string \<Rightarrow> nat" where
  "dec_val ds = foldl (\<lambda>a c. 10 * a + (of_char c - 48)) 0 ds"

definition exponent_part :: "string \<Rightarrow> int option" where
  "exponent_part r =
     (case r of
        [] \<Rightarrow> Some 0
      | c # r1 \<Rightarrow>
          if c = CHR ''e'' \<or> c = CHR ''E'' then
            (let (neg, ds) = (case r1 of
                                [] \<Rightarrow> (False, [])
                              | s # r2 \<Rightarrow> if s = CHR ''-'' then (True, r2)
                                          else if s = CHR ''+'' then (False, r2)
                                          else (False, r1))
             in if ds \<noteq> [] \<and> list_all is_digit ds
                then Some (if neg then - int (dec_val ds) else int (dec_val ds))
                else None)
          else None)"

definition unsigned_decimal :: "string \<Rightarrow> rat option" where
  "unsigned_decimal u =
     (let ip = takeWhile is_digit u;
          r1 = dropWhile is_digit u;
          (fp, r2) = (case r1 of
                        [] \<Rightarrow> ([], r1)
                      | c # r \<Rightarrow> if c = CHR ''.''
                                 then (takeWhile is_digit r, dropWhile is_digit r)
                                 else ([], r1))
      in if ip = [] \<and> fp = [] then None
         else (case exponent_part r2 of
                 None \<Rightarrow> None
               | Some e \<Rightarrow>
                   (let m = of_nat (dec_val ip) + of_nat (dec_val fp) / 10 ^ length fp
                    in Some (if e < 0 then m / 10 ^ nat (- e) else m * 10 ^ nat e))))"

definition signed_decimal :: "string \<Rightarrow> jsnum" where
  "signed_decimal t =
     (let (neg, u) = (case t of
                        [] \<Rightarrow> (False, [])
                      | s # r \<Rightarrow> if s = CHR ''-'' then (True, r)
                                 else if s = CHR ''+'' then (False, r)
                                 else (False, t))
      in if u = ''Infinity'' then (if neg then NInf else PInf)
         else (case unsigned_decimal u of
                 None \<Rightarrow> NaN
               | Some q \<Rightarrow> Fin (if neg then - q else q)))"

definition StringToNumber :: "string \<Rightarrow> jsnum" where
  "StringToNumber s =
     (let t = trim s in
      if t = [] then Fin 0
      else (case t of
              c0 # c1 # ds \<Rightarrow>
                if c0 = CHR ''0'' \<and> (c1 = CHR ''x'' \<or> c1 = CHR ''X'') then radix_digits 16 ds
                else if c0 = CHR ''0'' \<and> (c1 = CHR ''o'' \<or> c1 = CHR ''O'') then radix_digits 8 ds
                else if c0 = CHR ''0'' \<and> (c1 = CHR ''b'' \<or> c1 = CHR ''B'') then radix_digits 2 ds
                else signed_decimal t
            | _ \<Rightarrow> signed_decimal t))"

subsection \<open>\<^verbatim>\<open>ToNumber\<close>\<close>

text \<open>
  Objects and arrays go through \<^verbatim>\<open>ToPrimitive\<close>. A value made by \<^verbatim>\<open>JSON.parse\<close> has
  no callable own property, so for a plain object \<^verbatim>\<open>valueOf\<close> never yields a
  primitive, and \<^verbatim>\<open>toString\<close> is either the inherited one (the text
  \<^verbatim>\<open>[object Object]\<close>) or shadowed by an own, non-callable property, in which case
  the conversion throws a TypeError. An array is converted by \<^verbatim>\<open>join\<close>: the elements'
  texts separated by commas, \<^verbatim>\<open>null\<close> giving the empty text.
\<close>

definition has_own :: "(string \<times> json) list \<Rightarrow> string \<Rightarrow> bool" where
  "has_own kvs k = (map_of kvs k \<noteq> None)"

fun tostring_throws :: "json \<Rightarrow> bool" where
  "tostring_throws (JObj kvs) = has_own kvs ''toString''"
| "tostring_throws (JArr xs) = list_ex tostring_throws xs"
| "tostring_throws _ = False"

text \<open>
  The number of an array is the number of its joined text. With two or more elements
  the text holds a comma and is no numeric literal; with one element it is that
  element's text, and a number's text reads back as the same number.
\<close>

fun array_number :: "json list \<Rightarrow> exn + jsnum" where
  "array_number [] = Inr (Fin 0)"
| "array_number [JNull] = Inr (Fin 0)"
| "array_number [JBool b] = Inr NaN"
| "array_number [JNum n] = Inr n"
| "array_number [JStr s] = Inr (StringToNumber s)"
| "array_number [JArr ys] = array_number ys"
| "array_number [JObj kvs] = (if has_own kvs ''toString'' then Inl TypeError else Inr NaN)"
| "array_number (x # y # zs) =
     (if list_ex tostring_throws (x # y # zs) then Inl TypeError else Inr NaN)"

fun ToNumber :: "jsval \<Rightarrow> exn + jsnum" where
  "ToNumber None = Inr NaN"
| "ToNumber (Some JNull) = Inr (Fin 0)"
| "ToNumber (Some (JBool b)) = Inr (Fin (if b then 1 else 0))"
| "ToNumber (Some (JNum n)) = Inr n"
| "ToNumber (Some (JStr s)) = Inr (StringToNumber s)"
| "ToNumber (Some (JArr xs)) = array_number xs"
| "ToNumber (Some (JObj kvs)) = (if has_own kvs ''toString'' then Inl TypeError else Inr NaN)"

subsection \<open>\<^verbatim>\<open>Math.round\<close>, \<^verbatim>\<open>Math.min\<close>, \<^verbatim>\<open>Math.max\<close>\<close>

text \<open>
  \<^verbatim>\<open>Math.round\<close> gives the nearest integer, a tie going up; on a double that is
  exactly \<open>\<lfloor>x + 1/2\<rfloor>\<close>. \<^verbatim>\<open>Math.min\<close> and \<^verbatim>\<open>Math.max\<close> give \<open>NaN\<close> as soon as one
  argument is \<open>NaN\<close>.
\<close>

fun Math_round :: "jsnum \<Rightarrow> jsnum" where
  "Math_round (Fin x) = Fin (of_int \<lfloor>x + 1 / 2\<rfloor>)"
| "Math_round n = n"

fun Math_min :: "jsnum \<Rightarrow> jsnum \<Rightarrow> jsnum" where
  "Math_min NaN y = NaN"
| "Math_min x NaN = NaN"
| "Math_min NInf y = NInf"
| "Math_min x NInf = NInf"
| "Math_min PInf y = y"
| "Math_min x PInf = x"
| "Math_min (Fin x) (Fin y) = Fin (min x y)"

fun Math_max :: "jsnum \<Rightarrow> jsnum \<Rightarrow> jsnum" where
  "Math_max NaN y = NaN"
| "Math_max x NaN = NaN"
| "Math_max PInf y = PInf"
| "Math_max x PInf = PInf"
| "Math_max NInf y = y"
| "Math_max x NInf = x"
| "Math_max (Fin x) (Fin y) = Fin (max x y)"

section \<open>The Scorer: \<^verbatim>\<open>runEvaluationAgent\<close>\<close>

record EvaluationResult =
  overallScore :: jsnum
  decisionQuality :: jsnum
  communicationClarity :: jsnum
  structuredProcess :: jsnum
  riskAwareness :: jsnum
  professionalJudgment :: jsnum
  recommendation :: json
  summary :: json
  strengths :: "json list"
  concerns :: "json list"

text \<open>
  \<^verbatim>\<open>const clamp = (v: number) => Math.max(0, Math.min(100, Math.round(v || 0)));\<close>
  The argument is whatever the parsed reply holds under the field's name.
\<close>

definition clamp :: "jsval \<Rightarrow> exn + jsnum" where
  "clamp v =
     (case ToNumber (if truthy v then v else Some (JNum (Fin 0))) of
        Inl e \<Rightarrow> Inl e
      | Inr n \<Rightarrow> Inr (Math_max (Fin 0) (Math_min (Fin 100) (Math_round n))))"

text \<open>
  What the completion step hands to the rest of the \<^verbatim>\<open>try\<close> block: the call throws,
  or the content is no JSON text (\<^verbatim>\<open>JSON.parse\<close> throws, also on the empty content
  that \<^verbatim>\<open>|| ""\<close> substitutes), or it parses. The request asks for
  \<^verbatim>\<open>response_format: json_object\<close>, so a parsed reply is an object, given by its
  own properties (each key once, as the parsed object has it; \<open>map_of\<close> reads one).
\<close>

datatype completion = CallFailed | Unparseable | Parsed "(string \<times> json) list"

definition isArray :: "jsval \<Rightarrow> bool" where
  "isArray v = (case v of Some (JArr xs) \<Rightarrow> True | _ \<Rightarrow> False)"

definition array_or_empty :: "jsval \<Rightarrow> json list" where
  "array_or_empty v = (case v of Some (JArr xs) \<Rightarrow> xs | _ \<Rightarrow> [])"

definition or_default :: "jsval \<Rightarrow> json \<Rightarrow> json" where
  "or_default v d = (if truthy v then the v else d)"

definition evaluation_fallback :: EvaluationResult where
  "evaluation_fallback =
     \<lparr> overallScore = Fin 50,
       decisionQuality = Fin 50,
       communicationClarity = Fin 50,
       structuredProcess = Fin 50,
       riskAwareness = Fin 50,
       professionalJudgment = Fin 50,
       recommendation = JStr ''maybe'',
       summary = JStr ''The evaluation could not be fully completed due to a processing error. A manual review is recommended.'',
       strengths = [JStr ''Completed the interview simulation''],
       concerns = [JStr ''Automated evaluation encountered an error''] \<rparr>"

text \<open>
  The statements of the \<^verbatim>\<open>try\<close> block after \<^verbatim>\<open>JSON.parse\<close>, in order; an
  exception in one of them skips the rest.
\<close>

definition bind_exn :: "exn + 'a \<Rightarrow> ('a \<Rightarrow> exn + 'b) \<Rightarrow> exn + 'b" where
  "bind_exn m f = (case m of Inl e \<Rightarrow> Inl e | Inr x \<Rightarrow> f x)"

definition normalize_evaluation :: "(string \<times> json) list \<Rightarrow> exn + EvaluationResult" where
  "normalize_evaluation kvs =
     (let parsed = map_of kvs in
      bind_exn (clamp (parsed ''overallScore'')) (\<lambda>os.
      bind_exn (clamp (parsed ''decisionQuality'')) (\<lambda>dq.
      bind_exn (clamp (parsed ''communicationClarity'')) (\<lambda>cc.
      bind_exn (clamp (parsed ''structuredProcess'')) (\<lambda>sp.
      bind_exn (clamp (parsed ''riskAwareness'')) (\<lambda>ra.
      bind_exn (clamp (parsed ''professionalJudgment'')) (\<lambda>pj.
        Inr \<lparr> overallScore = os,
              decisionQuality = dq,
              communicationClarity = cc,
              structuredProcess = sp,
              riskAwareness = ra,
              professionalJudgment = pj,
              recommendation = or_default (parsed ''recommendation'') (JStr ''maybe''),
              summary = or_default (parsed ''summary'') (JStr ''Evaluation completed.''),
              strengths = array_or_empty (parsed ''strengths''),
              concerns = array_or_empty (parsed ''concerns'') \<rparr>)))))))"

text \<open>
  The result of \<^verbatim>\<open>runEvaluationAgent\<close> as a function of the completion step's
  outcome: any exception inside the \<^verbatim>\<open>try\<close> block leads to the fallback scorecard.
\<close>

definition evaluation_of_completion :: "completion \<Rightarrow> EvaluationResult" where
  "evaluation_of_completion c =
     (case c of
        CallFailed \<Rightarrow> evaluation_fallback
      | Unparseable \<Rightarrow> evaluation_fallback
      | Parsed kvs \<Rightarrow>
          (case normalize_evaluation kvs of
             Inl e \<Rightarrow> evaluation_fallback
           | Inr r \<Rightarrow> r))"

section \<open>Rows of the schema\<close>

text \<open>
  The tables of the schema, with the columns the routes and agents read or write.
  Generated primary keys of messages, evaluations and flags, and the creation times of
  evaluations and flags, are left out: nothing modelled here reads them. A time is a
  natural number (microseconds of the database clock).
\<close>

record Job =
  job_id :: string
  ownerId :: string
  title :: string
  description :: string
  simulationType :: string
  seniorityLevel :: string
  timeLimitMinutes :: int
  numQuestions :: int
  jobToken :: string
  isActive :: bool

record Application =
  app_id :: string
  jobId :: string
  status :: string
  candidateName :: string
  candidateEmail :: string
  submittedAt :: "nat option"

record Message =
  applicationId :: string
  role :: string
  content :: string
  createdAt :: nat

record Evaluation = EvaluationResult +
  eval_applicationId :: string

record Flag =
  flag_applicationId :: string
  severity :: jsval
  category :: jsval
  excerpt :: jsval

section \<open>Text of numbers and of lists of lines\<close>

text \<open>
  A template literal writes an integer in decimal (the numbers below are row counts and
  32-bit columns, far from the exponent notation of large doubles).
\<close>

definition digit_char :: "nat \<Rightarrow> char" where
  "digit_char d = ''0123456789'' ! d"

fun nat_text :: "nat \<Rightarrow> string" where
  "nat_text n = (if n < 10 then [digit_char n] else nat_text (n div 10) @ [digit_char (n mod 10)])"

declare nat_text.simps [simp del]

definition int_text :: "int \<Rightarrow> string" where
  "int_text i = (if i < 0 then CHR ''-'' # nat_text (nat (- i)) else nat_text (nat i))"

fun join :: "string \<Rightarrow> string list \<Rightarrow> string" where
  "join sep [] = []"
| "join sep [x] = x"
| "join sep (x # y # zs) = x @ sep @ join sep (y # zs)"

text \<open>One message of a completion request: role and content.\<close>

type_synonym chat_message = "string \<times> string"

section \<open>The Conductor: \<^verbatim>\<open>runInterviewAgent\<close>\<close>

definition questionCount :: "Message list \<Rightarrow> nat" where
  "questionCount conversationHistory = length (filter (\<lambda>m. role m = ''assistant'') conversationHistory)"

text \<open>\<^verbatim>\<open>x || d\<close> on a number takes \<open>d\<close> for 0, on a text for the empty text.\<close>

definition maxQuestions :: "Job \<Rightarrow> int" where
  "maxQuestions job = (if numQuestions job \<noteq> 0 then numQuestions job else 8)"

definition simulationType_or :: "Job \<Rightarrow> string" where
  "simulationType_or job = (if simulationType job \<noteq> [] then simulationType job else ''problem_solving'')"

definition seniorityLevel_or :: "Job \<Rightarrow> string" where
  "seniorityLevel_or job = (if seniorityLevel job \<noteq> [] then seniorityLevel job else ''mid'')"

definition timeLimitMinutes_or :: "Job \<Rightarrow> int" where
  "timeLimitMinutes_or job = (if timeLimitMinutes job \<noteq> 0 then timeLimitMinutes job else 15)"

text \<open>
  The system prompt, one entry for each line of the template literal (an interpolated
  text may itself hold line breaks); the prompt is the lines joined by line feeds.
\<close>

definition interview_prompt_lines :: "Job \<Rightarrow> Message list \<Rightarrow> string list" where
  \<open>interview_prompt_lines job conversationHistory =
    [''You are an AI interviewer conducting a workplace simulation interview for the role: "'' @ title job @ ''".'',
     [],
     ''Job Description: '' @ description job,
     ''Simulation Type: '' @ simulationType_or job,
     ''Seniority Level: '' @ seniorityLevel_or job,
     ''Time Limit: '' @ int_text (timeLimitMinutes_or job) @ '' minutes'',
     ''Maximum Questions: '' @ int_text (maxQuestions job),
     ''Questions Asked So Far: '' @ nat_text (questionCount conversationHistory),
     [],
     ''Your role is to simulate real workplace scenarios and evaluate the candidate'' @ [CHR 0x27] @ ''s decision-making abilities. Follow these rules:'',
     ''1. Ask ONE question at a time based on realistic workplace scenarios relevant to this role'',
     ''2. Adapt your follow-up questions based on the candidate'' @ [CHR 0x27] @ ''s responses'',
     ''3. Watch for red flags: inconsistencies, evasiveness, lack of depth, unprofessional responses, poor judgment'',
     ''4. Be professional but probing - dig deeper when answers are vague'',
     ''5. If this is the first message (no prior conversation), introduce the simulation scenario and ask the first question'',
     ''6. If you'' @ [CHR 0x27] @ ''ve asked '' @ int_text (maxQuestions job) @ '' or more questions, wrap up the interview gracefully'',
     [],
     ''Determine the current stage:'',
     ''- "introduction" if this is the first interaction'',
     ''- "questioning" if actively asking scenario questions'',
     ''- "follow_up" if probing deeper on a previous answer'',
     ''- "closing" if wrapping up ('' @ nat_text (questionCount conversationHistory) @ '' >= '' @ int_text (maxQuestions job - 1) @ '')'',
     [],
     ''You MUST respond with valid JSON in this exact format:'',
     ''{'',
     ''  "assistant_message": "Your message to the candidate",'',
     ''  "detected_flags": [{"severity": "low|medium|high", "category": "category name", "excerpt": "relevant quote or observation"}],'',
     ''  "stage": "introduction|questioning|follow_up|closing"'',
     ''}'',
     [],
     ''If no flags are detected, return an empty array for detected_flags.'']\<close>

definition interview_systemPrompt :: "Job \<Rightarrow> Message list \<Rightarrow> string" where
  \<open>interview_systemPrompt job conversationHistory =
     join ''\<newline>'' (interview_prompt_lines job conversationHistory)\<close>

text \<open>The request: the system prompt, the history in order, then the candidate's message.\<close>

definition interview_messages :: "Job \<Rightarrow> Message list \<Rightarrow> string \<Rightarrow> chat_message list" where
  "interview_messages job conversationHistory candidateMessage =
     [(''system'', interview_systemPrompt job conversationHistory)]
     @ map (\<lambda>msg. (role msg, content msg)) conversationHistory
     @ [(''user'', candidateMessage)]"

record InterviewResponse =
  assistant_message :: json
  detected_flags :: "json list"
  stage :: string

definition stage_or_questioning :: "jsval \<Rightarrow> string" where
  "stage_or_questioning v =
     (case v of
        Some (JStr s) \<Rightarrow>
          if s \<in> set [''introduction'', ''questioning'', ''follow_up'', ''closing''] then s
          else ''questioning''
      | _ \<Rightarrow> ''questioning'')"

definition normalize_interview :: "(string \<times> json) list \<Rightarrow> InterviewResponse" where
  "normalize_interview kvs =
     (let parsed = map_of kvs in
      \<lparr> assistant_message = or_default (parsed ''assistant_message'') (JStr ''Could you elaborate on that?''),
        detected_flags = array_or_empty (parsed ''detected_flags''),
        stage = stage_or_questioning (parsed ''stage'') \<rparr>)"

definition interview_fallback :: InterviewResponse where
  "interview_fallback =
     \<lparr> assistant_message = JStr ''Thank you for your response. Could you tell me more about how you would handle a challenging situation in this role?'',
       detected_flags = [],
       stage = ''questioning'' \<rparr>"

definition interview_of_completion :: "completion \<Rightarrow> InterviewResponse" where
  "interview_of_completion c =
     (case c of
        CallFailed \<Rightarrow> interview_fallback
      | Unparseable \<Rightarrow> interview_fallback
      | Parsed kvs \<Rightarrow> normalize_interview kvs)"

text \<open>
  An agent is given the completion service as a function from the request to the
  outcome of the call and of \<^verbatim>\<open>JSON.parse\<close>; it returns the request it sent
  together with its result.
\<close>

definition runInterviewAgent ::
  "(chat_message list \<Rightarrow> completion) \<Rightarrow> Job \<Rightarrow> Message list \<Rightarrow> string
     \<Rightarrow> chat_message list \<times> InterviewResponse" where
  "runInterviewAgent llm job conversationHistory candidateMessage =
     (let messages = interview_messages job conversationHistory candidateMessage
      in (messages, interview_of_completion (llm messages)))"

section \<open>The Scorer's request\<close>

definition transcript :: "Message list \<Rightarrow> string" where
  \<open>transcript conversationHistory =
     join ''\<newline>\<newline>''
       (map (\<lambda>m. (if role m = ''assistant'' then ''Interviewer'' else ''Candidate'') @ '': '' @ content m)
            conversationHistory)\<close>

definition evaluation_prompt_lines :: "Job \<Rightarrow> string list" where
  \<open>evaluation_prompt_lines job =
    [''You are an expert hiring evaluator. Analyze the following interview transcript for the role: "'' @ title job @ ''".'',
     [],
     ''Job Description: '' @ description job,
     ''Simulation Type: '' @ simulationType job,
     ''Seniority Level: '' @ seniorityLevel job,
     [],
     ''Evaluate the candidate on these dimensions (score each 0-100):'',
     ''1. Decision Quality - How sound were the candidate'' @ [CHR 0x27] @ ''s decisions in the scenarios?'',
     ''2. Communication Clarity - How clearly did the candidate express ideas?'',
     ''3. Structured Process - Did the candidate use a structured approach to problem-solving?'',
     ''4. Risk Awareness - Did the candidate identify and address risks appropriately?'',
     ''5. Professional Judgment - Did the candidate demonstrate appropriate professional standards?'',
     [],
     ''Also calculate an overall score (weighted average of above).'',
     [],
     ''Provide a recommendation: "strong_hire", "hire", "maybe", "no_hire", or "strong_no_hire"'',
     [],
     ''You MUST respond with valid JSON in this exact format:'',
     ''{'',
     ''  "overallScore": <number 0-100>,'',
     ''  "decisionQuality": <number 0-100>,'',
     ''  "communicationClarity": <number 0-100>,'',
     ''  "structuredProcess": <number 0-100>,'',
     ''  "riskAwareness": <number 0-100>,'',
     ''  "professionalJudgment": <number 0-100>,'',
     ''  "recommendation": "<strong_hire|hire|maybe|no_hire|strong_no_hire>",'',
     ''  "summary": "<2-3 paragraph evaluation summary>",'',
     ''  "strengths": ["<strength 1>", "<strength 2>", ...],'',
     ''  "concerns": ["<concern 1>", "<concern 2>", ...]'',
     ''}'']\<close>

definition evaluation_messages :: "Job \<Rightarrow> Message list \<Rightarrow> chat_message list" where
  \<open>evaluation_messages job conversationHistory =
     [(''system'', join ''\<newline>'' (evaluation_prompt_lines job)),
      (''user'', ''Interview Transcript:\<newline>\<newline>'' @ transcript conversationHistory)]\<close>

definition runEvaluationAgent ::
  "(chat_message list \<Rightarrow> completion) \<Rightarrow> Job \<Rightarrow> Message list
     \<Rightarrow> chat_message list \<times> EvaluationResult" where
  "runEvaluationAgent llm job conversationHistory =
     (let messages = evaluation_messages job conversationHistory
      in (messages, evaluation_of_completion (llm messages)))"

section \<open>Storage\<close>

text \<open>
  The state is the five tables the routes touch, each in insertion order, and the log
  of the requests sent to the completion service.
\<close>

record state =
  jobs :: "Job list"
  applications :: "Application list"
  messages :: "Message list"
  evaluations :: "Evaluation list"
  flags :: "Flag list"
  sent :: "chat_message list list"

text \<open>The methods of \<^verbatim>\<open>DatabaseStorage\<close> the routes below call.\<close>

definition getApplication :: "state \<Rightarrow> string \<Rightarrow> Application option" where
  "getApplication s ident = find (\<lambda>a. app_id a = ident) (applications s)"

definition getJob :: "state \<Rightarrow> string \<Rightarrow> Job option" where
  "getJob s ident = find (\<lambda>j. job_id j = ident) (jobs s)"

definition updateApplicationStatus :: "state \<Rightarrow> string \<Rightarrow> string \<Rightarrow> state" where
  "updateApplicationStatus s ident st =
     s\<lparr>applications := map (\<lambda>a. if app_id a = ident then a\<lparr>status := st\<rparr> else a) (applications s)\<rparr>"

definition submitApplication :: "state \<Rightarrow> string \<Rightarrow> nat \<Rightarrow> state" where
  "submitApplication s ident now =
     s\<lparr>applications :=
         map (\<lambda>a. if app_id a = ident then a\<lparr>status := ''submitted'', submittedAt := Some now\<rparr> else a)
             (applications s)\<rparr>"

text \<open>The row carries the \<^verbatim>\<open>created_at\<close> the database gave it.\<close>

definition createMessage :: "state \<Rightarrow> Message \<Rightarrow> state" where
  "createMessage s msg = s\<lparr>messages := messages s @ [msg]\<rparr>"

text \<open>
  \<^verbatim>\<open>orderBy(messages.createdAt)\<close>: ascending creation time. Among rows of equal time
  SQL leaves the order open, where \<open>sort_key\<close> keeps the order of insertion; what is
  proved below about the order of a listing assumes times that differ.
\<close>

definition getMessagesByApplication :: "state \<Rightarrow> string \<Rightarrow> Message list" where
  "getMessagesByApplication s a = sort_key createdAt (filter (\<lambda>m. applicationId m = a) (messages s))"

text \<open>\<^verbatim>\<open>application_id\<close> is \<^verbatim>\<open>unique\<close> in the evaluations table: a second row is refused.\<close>

definition createEvaluation :: "state \<Rightarrow> Evaluation \<Rightarrow> exn + state" where
  "createEvaluation s ev =
     (if list_ex (\<lambda>e. eval_applicationId e = eval_applicationId ev) (evaluations s)
      then Inl DbError
      else Inr (s\<lparr>evaluations := evaluations s @ [ev]\<rparr>))"

text \<open>The three texts of a flag are \<^verbatim>\<open>notNull\<close> columns.\<close>

definition is_null :: "jsval \<Rightarrow> bool" where
  "is_null v = (v = None \<or> v = Some JNull)"

definition createFlag :: "state \<Rightarrow> Flag \<Rightarrow> exn + state" where
  "createFlag s f =
     (if is_null (severity f) \<or> is_null (category f) \<or> is_null (excerpt f)
      then Inl DbError
      else Inr (s\<lparr>flags := flags s @ [f]\<rparr>))"

section \<open>The environment of a request\<close>

text \<open>
  Each awaited storage call of a route can also reject for reasons outside the tables
  (the connection is lost); the environment says which call sites do in this request,
  what time the database stamps on a row inserted at a call site, what the server's
  clock reads, what the completion service answers, and how the driver writes a value
  that is not a text into a text column.
\<close>

datatype db_call =
    GetApplication
  | GetJob
  | CreateUserMessage
  | GetMessages
  | CreateAssistantMessage
  | CreateFlag
  | SubmitApplication
  | CreateEvaluation
  | UpdateApplicationStatus

record env =
  llm :: "chat_message list \<Rightarrow> completion"
  db_fails :: "db_call \<Rightarrow> bool"
  db_now :: "db_call \<Rightarrow> nat"
  server_now :: nat
  pg_text :: "json \<Rightarrow> string"

definition stored_text :: "env \<Rightarrow> json \<Rightarrow> string" where
  "stored_text e v = (case v of JStr t \<Rightarrow> t | _ \<Rightarrow> pg_text e v)"

datatype body = Msg string | Turn Message string | Updated "Application option"

type_synonym response = "nat \<times> body"

section \<open>Route \<^verbatim>\<open>POST /api/public/applications/:appId/message\<close>\<close>

text \<open>
  Reading \<^verbatim>\<open>flag.severity\<close> throws on \<^verbatim>\<open>null\<close>, gives the own property of an
  object and \<^verbatim>\<open>undefined\<close> on anything else.
\<close>

definition flag_of :: "string \<Rightarrow> json \<Rightarrow> exn + Flag" where
  "flag_of a flag =
     (case flag of
        JNull \<Rightarrow> Inl TypeError
      | JObj kvs \<Rightarrow> Inr \<lparr> flag_applicationId = a, severity = map_of kvs ''severity'',
                          category = map_of kvs ''category'', excerpt = map_of kvs ''excerpt'' \<rparr>
      | _ \<Rightarrow> Inr \<lparr> flag_applicationId = a, severity = None, category = None, excerpt = None \<rparr>)"

text \<open>The loop over the detected flags: the first exception ends it, the rows already made stay.\<close>

fun createFlags :: "env \<Rightarrow> string \<Rightarrow> json list \<Rightarrow> state \<Rightarrow> exn option \<times> state" where
  "createFlags e a [] s = (None, s)"
| "createFlags e a (flag # rest) s =
     (case flag_of a flag of
        Inl x \<Rightarrow> (Some x, s)
      | Inr f \<Rightarrow>
          if db_fails e CreateFlag then (Some DbError, s)
          else (case createFlag s f of
                  Inl x \<Rightarrow> (Some x, s)
                | Inr s' \<Rightarrow> createFlags e a rest s'))"

text \<open>The part of the route after the job is found and the content is present.\<close>

definition message_turn :: "env \<Rightarrow> state \<Rightarrow> Application \<Rightarrow> Job \<Rightarrow> string \<Rightarrow> response \<times> state" where
  "message_turn e s application job c =
     (if db_fails e CreateUserMessage then ((500, Msg ''Failed to process message''), s)
      else
        (let s1 = createMessage s \<lparr> applicationId = app_id application, role = ''user'',
                                     content = c, createdAt = db_now e CreateUserMessage \<rparr>
         in if db_fails e GetMessages then ((500, Msg ''Failed to process message''), s1)
            else
              (let conversationHistory = getMessagesByApplication s1 (app_id application);
                   (request, aiResponse) = runInterviewAgent (llm e) job conversationHistory c;
                   s2 = s1\<lparr>sent := sent s1 @ [request]\<rparr>
               in if db_fails e CreateAssistantMessage then ((500, Msg ''Failed to process message''), s2)
                  else
                    (let assistantMessage =
                           \<lparr> applicationId = app_id application, role = ''assistant'',
                             content = stored_text e (assistant_message aiResponse),
                             createdAt = db_now e CreateAssistantMessage \<rparr>;
                         s3 = createMessage s2 assistantMessage
                     in (case createFlags e (app_id application) (detected_flags aiResponse) s3 of
                           (Some x, s4) \<Rightarrow> ((500, Msg ''Failed to process message''), s4)
                         | (None, s4) \<Rightarrow> ((200, Turn assistantMessage (stage aiResponse)), s4))))))"

text \<open>
  The route. The content of the request body is a text or absent; \<^verbatim>\<open>!content\<close>
  holds for the absent and for the empty one.
\<close>

definition message_route :: "env \<Rightarrow> state \<Rightarrow> string \<Rightarrow> string option \<Rightarrow> response \<times> state" where
  "message_route e s appId content_opt =
     (if db_fails e GetApplication then ((500, Msg ''Failed to process message''), s)
      else
        (case getApplication s appId of
           None \<Rightarrow> ((404, Msg ''Application not found''), s)
         | Some application \<Rightarrow>
             if status application = ''submitted'' \<or> status application = ''evaluated''
             then ((400, Msg ''Interview already submitted''), s)
             else if db_fails e GetJob then ((500, Msg ''Failed to process message''), s)
             else
               (case getJob s (jobId application) of
                  None \<Rightarrow> ((404, Msg ''Job not found''), s)
                | Some job \<Rightarrow>
                    (case content_opt of
                       None \<Rightarrow> ((400, Msg ''Message content is required''), s)
                     | Some c \<Rightarrow>
                         if c = [] then ((400, Msg ''Message content is required''), s)
                         else message_turn e s application job c))))"

section \<open>Route \<^verbatim>\<open>POST /api/public/applications/:appId/submit\<close>\<close>

text \<open>
  The route awaits the Scorer inside its own \<^verbatim>\<open>try\<close>: to the route the Scorer is a
  call that sends some requests and then resolves with a scorecard or rejects.
\<close>

type_synonym scorer = "Job \<Rightarrow> Message list \<Rightarrow> chat_message list list \<times> (exn + EvaluationResult)"

definition evaluation_row :: "string \<Rightarrow> EvaluationResult \<Rightarrow> Evaluation" where
  "evaluation_row a evalResult =
     \<lparr> overallScore = overallScore evalResult,
       decisionQuality = decisionQuality evalResult,
       communicationClarity = communicationClarity evalResult,
       structuredProcess = structuredProcess evalResult,
       riskAwareness = riskAwareness evalResult,
       professionalJudgment = professionalJudgment evalResult,
       recommendation = recommendation evalResult,
       summary = summary evalResult,
       strengths = strengths evalResult,
       concerns = concerns evalResult,
       eval_applicationId = a \<rparr>"

text \<open>The inner \<^verbatim>\<open>try\<close> block: whatever is thrown in it is logged and dropped.\<close>

definition evaluate_and_persist :: "scorer \<Rightarrow> env \<Rightarrow> state \<Rightarrow> Application \<Rightarrow> Job \<Rightarrow> Message list \<Rightarrow> state" where
  "evaluate_and_persist sc e s application job conversationHistory =
     (let (requests, outcome) = sc job conversationHistory;
          s1 = s\<lparr>sent := sent s @ requests\<rparr>
      in (case outcome of
            Inl x \<Rightarrow> s1
          | Inr evalResult \<Rightarrow>
              if db_fails e CreateEvaluation then s1
              else (case createEvaluation s1 (evaluation_row (app_id application) evalResult) of
                      Inl x \<Rightarrow> s1
                    | Inr s2 \<Rightarrow>
                        if db_fails e UpdateApplicationStatus then s2
                        else updateApplicationStatus s2 (app_id application) ''evaluated'')))"

definition submit_route :: "scorer \<Rightarrow> env \<Rightarrow> state \<Rightarrow> string \<Rightarrow> response \<times> state" where
  "submit_route sc e s appId =
     (if db_fails e GetApplication then ((500, Msg ''Failed to submit interview''), s)
      else
        (case getApplication s appId of
           None \<Rightarrow> ((404, Msg ''Application not found''), s)
         | Some application \<Rightarrow>
             if status application = ''submitted'' \<or> status application = ''evaluated''
             then ((400, Msg ''Interview already submitted''), s)
             else if db_fails e GetJob then ((500, Msg ''Failed to submit interview''), s)
             else
               (case getJob s (jobId application) of
                  None \<Rightarrow> ((404, Msg ''Job not found''), s)
                | Some job \<Rightarrow>
                    if db_fails e SubmitApplication then ((500, Msg ''Failed to submit interview''), s)
                    else
                      (let s1 = submitApplication s (app_id application) (server_now e)
                       in if db_fails e GetMessages then ((500, Msg ''Failed to submit interview''), s1)
                          else
                            (let conversationHistory = getMessagesByApplication s1 (app_id application)
                             in ((200, Msg ''Interview submitted successfully''),
                                 (if conversationHistory \<noteq> []
                                  then evaluate_and_persist sc e s1 application job conversationHistory
                                  else s1)))))))"

text \<open>The Scorer the server wires in: \<^verbatim>\<open>runEvaluationAgent\<close>, which never rejects.\<close>

definition the_scorer :: "env \<Rightarrow> scorer" where
  "the_scorer e job conversationHistory =
     (let (request, evalResult) = runEvaluationAgent (llm e) job conversationHistory
      in ([request], Inr evalResult))"

section \<open>Route \<^verbatim>\<open>PATCH /api/applications/:appId/status\<close>\<close>

text \<open>The session's user is absent when the request is not authenticated.\<close>

definition status_route :: "env \<Rightarrow> state \<Rightarrow> string option \<Rightarrow> string \<Rightarrow> string option \<Rightarrow> response \<times> state" where
  "status_route e s user appId status_opt =
     (case user of
        None \<Rightarrow> ((401, Msg ''Authentication required''), s)
      | Some u \<Rightarrow>
          if db_fails e GetApplication then ((500, Msg ''Failed to update status''), s)
          else
            (case getApplication s appId of
               None \<Rightarrow> ((404, Msg ''Application not found''), s)
             | Some application \<Rightarrow>
                 if db_fails e GetJob then ((500, Msg ''Failed to update status''), s)
                 else
                   (case getJob s (jobId application) of
                      None \<Rightarrow> ((403, Msg ''Forbidden''), s)
                    | Some job \<Rightarrow>
                        if ownerId job \<noteq> u then ((403, Msg ''Forbidden''), s)
                        else
                          (case status_opt of
                             None \<Rightarrow> ((400, Msg ''Status is required''), s)
                           | Some st \<Rightarrow>
                               if st = [] then ((400, Msg ''Status is required''), s)
                               else if db_fails e UpdateApplicationStatus
                               then ((500, Msg ''Failed to update status''), s)
                               else
                                 (let s1 = updateApplicationStatus s appId st
                                  in ((200, Updated (getApplication s1 appId)), s1))))))"

section \<open>Requests in sequence\<close>

text \<open>
  The three routes that write to an existing application. The other routes of the
  server (authentication, job creation, intake, the reads) write neither messages,
  evaluations nor flags and do not change the status of an application.
\<close>

datatype request =
    PostMessage string "string option"
  | PostSubmit string
  | PatchStatus "string option" string "string option"

fun handle :: "env \<Rightarrow> request \<Rightarrow> state \<Rightarrow> response \<times> state" where
  "handle e (PostMessage appId content_opt) s = message_route e s appId content_opt"
| "handle e (PostSubmit appId) s = submit_route (the_scorer e) e s appId"
| "handle e (PatchStatus user appId status_opt) s = status_route e s user appId status_opt"

fun run :: "(env \<times> request) list \<Rightarrow> state \<Rightarrow> state" where
  "run [] s = s"
| "run ((e, r) # rest) s = run rest (snd (handle e r s))"

section \<open>Example data\<close>

text \<open>
  A job with a budget of three questions, one application to it, a transcript with two
  interviewer turns, and environments in which no storage call fails and the completion
  service gives a fixed answer. The theorems below are instantiated with these.
\<close>

definition example_job :: Job where
  "example_job =
     \<lparr> job_id = ''job-1'', ownerId = ''recruiter-1'', title = ''Support Engineer'',
       description = ''Handle escalations'', simulationType = ''problem_solving'',
       seniorityLevel = ''mid'', timeLimitMinutes = 15, numQuestions = 3,
       jobToken = ''tok-1'', isActive = True \<rparr>"

definition example_application :: Application where
  "example_application =
     \<lparr> app_id = ''app-1'', jobId = ''job-1'', status = ''in_progress'',
       candidateName = ''Ada'', candidateEmail = ''ada@example.org'', submittedAt = None \<rparr>"

definition example_history :: "Message list" where
  "example_history =
     [\<lparr> applicationId = ''app-1'', role = ''user'', content = ''Hello'', createdAt = 1 \<rparr>,
      \<lparr> applicationId = ''app-1'', role = ''assistant'', content = ''First question'', createdAt = 2 \<rparr>,
      \<lparr> applicationId = ''app-1'', role = ''user'', content = ''First answer'', createdAt = 3 \<rparr>,
      \<lparr> applicationId = ''app-1'', role = ''assistant'', content = ''Second question'', createdAt = 4 \<rparr>]"

definition example_state :: state where
  "example_state =
     \<lparr> jobs = [example_job], applications = [example_application], messages = example_history,
       evaluations = [], flags = [], sent = [] \<rparr>"

definition reply_with :: "completion \<Rightarrow> chat_message list \<Rightarrow> completion" where
  "reply_with c request = c"

definition no_faults :: "db_call \<Rightarrow> bool" where
  "no_faults c = False"

definition at_time :: "nat \<Rightarrow> db_call \<Rightarrow> nat" where
  "at_time t c = t"

definition no_text :: "json \<Rightarrow> string" where
  "no_text v = []"

definition env_with :: "completion \<Rightarrow> env" where
  "env_with c =
     \<lparr> llm = reply_with c, db_fails = no_faults, db_now = at_time 10, server_now = 10,
       pg_text = no_text \<rparr>"

definition rejecting_scorer :: scorer where
  "rejecting_scorer job conversationHistory = ([], Inl ServiceError)"

definition text_score_reply :: "(string \<times> json) list" where
  "text_score_reply =
     [(''overallScore'', JStr ''abc''),
      (''decisionQuality'', JNum (Fin 80)),
      (''communicationClarity'', JNum (Fin 70)),
      (''structuredProcess'', JNum (Fin 60)),
      (''riskAwareness'', JNum (Fin 50)),
      (''professionalJudgment'', JNum (Fin 40)),
      (''recommendation'', JStr ''hire''),
      (''summary'', JStr ''Solid.''),
      (''strengths'', JArr [JStr ''clear'']),
      (''concerns'', JArr [])]"

definition odd_recommendation_reply :: "(string \<times> json) list" where
  "odd_recommendation_reply =
     [(''overallScore'', JNum (Fin 81)),
      (''recommendation'', JStr ''definitely_hire''),
      (''strengths'', JStr ''many'')]"

definition malformed_interview_reply :: "(string \<times> json) list" where
  "malformed_interview_reply =
     [(''assistant_message'', JStr []),
      (''detected_flags'', JStr ''not-an-array''),
      (''stage'', JStr ''bogus'')]"

definition evaluated_application :: Application where
  "evaluated_application = example_application\<lparr>status := ''evaluated'', submittedAt := Some 9\<rparr>"

definition evaluated_state :: state where
  "evaluated_state =
     example_state\<lparr> applications := [evaluated_application],
                    evaluations := [evaluation_row ''app-1'' evaluation_fallback] \<rparr>"

definition good_interview_reply :: "(string \<times> json) list" where
  "good_interview_reply =
     [(''assistant_message'', JStr ''Third question''),
      (''detected_flags'', JArr []),
      (''stage'', JStr ''closing'')]"

definition next_message :: Message where
  "next_message = \<lparr> applicationId = ''app-1'', role = ''user'', content = ''Second answer'', createdAt = 10 \<rparr>"

definition zero_budget_job :: Job where
  "zero_budget_job = example_job\<lparr>numQuestions := 0\<rparr>"

text \<open>At most one evaluation for each application.\<close>

definition one_evaluation_each :: "state \<Rightarrow> bool" where
  "one_evaluation_each s = distinct (map eval_applicationId (evaluations s))"

section \<open>Facts about storage and the routes\<close>

lemmas example_defs =
  evaluated_application_def evaluated_state_def good_interview_reply_def next_message_def
  example_job_def example_application_def example_history_def example_state_def
  reply_with_def no_faults_def at_time_def no_text_def env_with_def rejecting_scorer_def
  text_score_reply_def odd_recommendation_reply_def malformed_interview_reply_def

lemma getApplication_app_id: "getApplication s a = Some app \<Longrightarrow> app_id app = a"
  by (auto simp: getApplication_def find_Some_iff)

lemma find_map_update:
  assumes "\<And>x. key (f x) = key x"
  shows "find (\<lambda>x. key x = k) (map f xs) = map_option f (find (\<lambda>x. key x = k) xs)"
  by (induction xs) (simp_all add: assms)

lemma getApplication_submitApplication:
  "getApplication (submitApplication s a now) b =
     map_option (\<lambda>x. if app_id x = a then x\<lparr>status := ''submitted'', submittedAt := Some now\<rparr> else x)
       (getApplication s b)"
  unfolding getApplication_def submitApplication_def
  by (simp add: find_map_update [where key = app_id])

lemma getApplication_updateApplicationStatus:
  "getApplication (updateApplicationStatus s a st) b =
     map_option (\<lambda>x. if app_id x = a then x\<lparr>status := st\<rparr> else x) (getApplication s b)"
  unfolding getApplication_def updateApplicationStatus_def
  by (simp add: find_map_update [where key = app_id])

lemma evaluations_submitApplication [simp]: "evaluations (submitApplication s a now) = evaluations s"
  by (simp add: submitApplication_def)

lemma evaluations_updateApplicationStatus [simp]: "evaluations (updateApplicationStatus s a st) = evaluations s"
  by (simp add: updateApplicationStatus_def)

lemma messages_submitApplication [simp]: "messages (submitApplication s a now) = messages s"
  by (simp add: submitApplication_def)

lemma getApplication_sent [simp]: "getApplication (s\<lparr>sent := x\<rparr>) a = getApplication s a"
  by (simp add: getApplication_def)

lemma getApplication_evaluations [simp]: "getApplication (s\<lparr>evaluations := x\<rparr>) a = getApplication s a"
  by (simp add: getApplication_def)

lemma evaluate_and_persist_eq:
  "evaluate_and_persist sc e s application job h =
     (let s1 = s\<lparr>sent := sent s @ fst (sc job h)\<rparr> in
      case snd (sc job h) of
        Inl x \<Rightarrow> s1
      | Inr r \<Rightarrow>
          if db_fails e CreateEvaluation
             \<or> list_ex (\<lambda>x. eval_applicationId x = app_id application) (evaluations s)
          then s1
          else (let s2 = s1\<lparr>evaluations := evaluations s @ [evaluation_row (app_id application) r]\<rparr>
                in if db_fails e UpdateApplicationStatus then s2
                   else updateApplicationStatus s2 (app_id application) ''evaluated''))"
  by (simp add: evaluate_and_persist_def createEvaluation_def evaluation_row_def Let_def
      split: prod.splits sum.splits)

lemma evaluate_and_persist_evaluations:
  "evaluations (evaluate_and_persist sc e s application job h) = evaluations s
   \<or> (app_id application \<notin> set (map eval_applicationId (evaluations s))
      \<and> (\<exists>r. evaluations (evaluate_and_persist sc e s application job h)
                = evaluations s @ [evaluation_row (app_id application) r]))"
  by (auto simp add: evaluate_and_persist_eq Let_def list_ex_iff split: sum.splits)

lemma evaluate_and_persist_failure:
  assumes "(\<exists>x. snd (sc job h) = Inl x) \<or> db_fails e CreateEvaluation
           \<or> list_ex (\<lambda>x. eval_applicationId x = app_id application) (evaluations s)"
  shows "evaluate_and_persist sc e s application job h = s\<lparr>sent := sent s @ fst (sc job h)\<rparr>"
  using assms by (auto simp add: evaluate_and_persist_eq Let_def split: sum.splits)

lemma evaluate_and_persist_status:
  assumes "getApplication s (app_id application) = Some app0"
  shows "(map_option status (getApplication (evaluate_and_persist sc e s application job h) (app_id application))
            = Some (status app0))
       \<or> (map_option status (getApplication (evaluate_and_persist sc e s application job h) (app_id application))
            = Some ''evaluated''
          \<and> (\<exists>r. evaluations (evaluate_and_persist sc e s application job h)
                = evaluations s @ [evaluation_row (app_id application) r]))"
  using assms
  by (auto simp add: evaluate_and_persist_eq Let_def getApplication_updateApplicationStatus
       getApplication_app_id split: sum.splits)

lemma submit_route_open:
  assumes "\<not> db_fails e GetApplication" "getApplication s appId = Some application"
    and "status application \<noteq> ''submitted''" "status application \<noteq> ''evaluated''"
    and "\<not> db_fails e GetJob" "getJob s (jobId application) = Some job"
    and "\<not> db_fails e SubmitApplication" "\<not> db_fails e GetMessages"
  shows "submit_route sc e s appId =
     ((200, Msg ''Interview submitted successfully''),
      (if getMessagesByApplication s appId \<noteq> []
       then evaluate_and_persist sc e (submitApplication s appId (server_now e)) application job
              (getMessagesByApplication s appId)
       else submitApplication s appId (server_now e)))"
proof -
  have id: "app_id application = appId" using assms(2) by (rule getApplication_app_id)
  have h: "getMessagesByApplication (submitApplication s appId (server_now e)) appId
             = getMessagesByApplication s appId"
    by (simp add: getMessagesByApplication_def)
  show ?thesis using assms by (simp add: submit_route_def id h Let_def)
qed

lemma submit_route_closed:
  assumes "getApplication s appId = Some application"
    and "status application = ''submitted'' \<or> status application = ''evaluated''"
  shows "snd (submit_route sc e s appId) = s"
    and "\<not> db_fails e GetApplication \<Longrightarrow>
           fst (submit_route sc e s appId) = (400, Msg ''Interview already submitted'')"
  using assms by (auto simp: submit_route_def)

lemma createFlags_evaluations:
  "createFlags e a fl s = (x, s') \<Longrightarrow> evaluations s' = evaluations s"
proof (induction fl arbitrary: s)
  case Nil
  then show ?case by simp
next
  case (Cons f fl)
  from Cons.prems show ?case
    by (auto simp: createFlag_def split: sum.splits if_splits dest!: Cons.IH)
qed

lemma message_turn_evaluations: "evaluations (snd (message_turn e s application job c)) = evaluations s"
  by (auto simp add: message_turn_def Let_def createMessage_def split: prod.splits option.splits
      dest!: createFlags_evaluations)

lemma message_route_evaluations: "evaluations (snd (message_route e s appId co)) = evaluations s"
  by (simp add: message_route_def message_turn_evaluations split: option.splits)

lemma status_route_evaluations: "evaluations (snd (status_route e s u appId st)) = evaluations s"
  by (simp add: status_route_def Let_def split: option.splits)

lemma submit_route_one_evaluation_each:
  assumes "one_evaluation_each s"
  shows "one_evaluation_each (snd (submit_route sc e s appId))"
proof -
  have ep: "one_evaluation_each (evaluate_and_persist sc e t application job h)"
    if "one_evaluation_each t" for t application job h
  proof -
    have row: "eval_applicationId (evaluation_row a r) = a" for a r
      by (simp add: evaluation_row_def)
    from evaluate_and_persist_evaluations [of sc e t application job h]
    show ?thesis
    proof
      assume "evaluations (evaluate_and_persist sc e t application job h) = evaluations t"
      then show ?thesis using that by (simp add: one_evaluation_each_def)
    next
      assume "app_id application \<notin> set (map eval_applicationId (evaluations t))
        \<and> (\<exists>r. evaluations (evaluate_and_persist sc e t application job h)
                = evaluations t @ [evaluation_row (app_id application) r])"
      then obtain r where n: "app_id application \<notin> set (map eval_applicationId (evaluations t))"
        and ev: "evaluations (evaluate_and_persist sc e t application job h)
                = evaluations t @ [evaluation_row (app_id application) r]"
        by blast
      show ?thesis using that n unfolding one_evaluation_each_def ev by (simp add: row)
    qed
  qed
  have sa: "one_evaluation_each (submitApplication s a now)" for a now
    using assms by (simp add: one_evaluation_each_def)
  show ?thesis
    using assms by (simp add: submit_route_def Let_def ep sa split: option.splits)
qed

lemma handle_one_evaluation_each:
  "one_evaluation_each s \<Longrightarrow> one_evaluation_each (snd (handle e r s))"
  by (cases r)
     (simp_all add: submit_route_one_evaluation_each,
      simp_all add: one_evaluation_each_def message_route_evaluations status_route_evaluations)

lemma run_one_evaluation_each:
  "one_evaluation_each s \<Longrightarrow> one_evaluation_each (run tr s)"
proof (induction tr arbitrary: s)
  case Nil
  then show ?case by simp
next
  case (Cons a tr)
  obtain e r where a: "a = (e, r)" by (cases a)
  show ?case using Cons.prems by (simp add: a Cons.IH handle_one_evaluation_each)
qed

lemma message_route_closed:
  assumes "getApplication s appId = Some application"
    and "status application = ''submitted'' \<or> status application = ''evaluated''"
  shows "snd (message_route e s appId co) = s"
    and "\<not> db_fails e GetApplication \<Longrightarrow>
           fst (message_route e s appId co) = (400, Msg ''Interview already submitted'')"
  using assms by (auto simp: message_route_def)

lemma message_route_accepted:
  assumes "fst (fst (message_route e s appId co)) = 200"
  shows "\<exists>application. getApplication s appId = Some application
           \<and> status application \<noteq> ''submitted'' \<and> status application \<noteq> ''evaluated''"
  using assms by (auto simp: message_route_def split: option.splits if_splits)

lemma insort_key_snoc:
  "f y \<le> f x \<Longrightarrow> insort_key f y (zs @ [x]) = insort_key f y zs @ [x]"
  by (induction zs) auto

lemma sort_key_snoc:
  assumes "\<forall>y \<in> set xs. f y \<le> f x"
  shows "sort_key f (xs @ [x]) = sort_key f xs @ [x]"
  using assms
proof (induction xs)
  case Nil
  then show ?case by simp
next
  case (Cons y ys)
  then have "sort_key f (ys @ [x]) = sort_key f ys @ [x]" by simp
  moreover have "f y \<le> f x" using Cons.prems by simp
  ultimately show ?case by (simp add: insort_key_snoc)
qed

lemma getMessagesByApplication_createMessage:
  assumes "applicationId msg = a"
    and "\<forall>m \<in> set (messages s). applicationId m = a \<longrightarrow> createdAt m < createdAt msg"
  shows "getMessagesByApplication (createMessage s msg) a = getMessagesByApplication s a @ [msg]"
proof -
  have "\<forall>y \<in> set (filter (\<lambda>m. applicationId m = a) (messages s)). createdAt y \<le> createdAt msg"
    using assms(2) by (auto intro: less_imp_le)
  then show ?thesis
    using assms(1) by (simp add: getMessagesByApplication_def createMessage_def sort_key_snoc)
qed

lemma createFlags_sent:
  "createFlags e a fl s = (x, s') \<Longrightarrow> sent s' = sent s"
proof (induction fl arbitrary: s)
  case Nil
  then show ?case by simp
next
  case (Cons f fl)
  from Cons.prems show ?case
    by (auto simp: createFlag_def split: sum.splits if_splits dest!: Cons.IH)
qed

lemma message_turn_200:
  assumes "message_turn e s application job c = ((200, b), s')"
  shows "\<not> db_fails e CreateUserMessage \<and> \<not> db_fails e GetMessages
    \<and> sent s' = sent s @ [interview_messages job
          (getMessagesByApplication
             (createMessage s \<lparr> applicationId = app_id application, role = ''user'', content = c,
                                 createdAt = db_now e CreateUserMessage \<rparr>)
             (app_id application)) c]"
  using assms
  by (auto simp add: message_turn_def Let_def runInterviewAgent_def createMessage_def
      split: prod.splits option.splits if_splits dest!: createFlags_sent)

lemma clamp_abc: "clamp (Some (JStr ''abc'')) = Inr NaN"
  by (simp add: clamp_def StringToNumber_def trim_def is_ws_def signed_decimal_def
      unsigned_decimal_def is_digit_def)

lemma clamp_Fin: "clamp (Some (JNum (Fin x))) = Inr (Fin (of_int (max 0 (min 100 \<lfloor>x + 1 / 2\<rfloor>))))"
  by (simp add: clamp_def max_def min_def)

lemma clamp_int:
  "clamp (Some (JNum (Fin (of_int k)))) = Inr (Fin (of_int (max 0 (min 100 k))))"
proof -
  have "\<lfloor>(of_int k :: rat) + 1 / 2\<rfloor> = k" by linarith
  then show ?thesis by (simp add: clamp_Fin)
qed

lemma example_lookups:
  "getApplication example_state ''app-1'' = Some example_application"
  "getJob example_state (jobId example_application) = Some example_job"
  "getMessagesByApplication example_state ''app-1'' = example_history"
  "getApplication evaluated_state ''app-1'' = Some evaluated_application"
  "getJob example_state ''job-1'' = Some example_job"
  by (simp_all add: getApplication_def getJob_def getMessagesByApplication_def example_defs)

lemma example_fields:
  "app_id example_application = ''app-1''"
  "jobId example_application = ''job-1''"
  "status example_application = ''in_progress''"
  by (simp_all add: example_application_def)

lemma example_turn_accepted:
  "fst (fst (message_route (env_with (Parsed good_interview_reply)) example_state ''app-1''
               (Some ''Second answer''))) = 200"
  by (simp add: message_route_def message_turn_def example_lookups example_fields Let_def
      runInterviewAgent_def interview_of_completion_def normalize_interview_def array_or_empty_def
      env_with_def no_faults_def reply_with_def good_interview_reply_def
      split: prod.splits)

text \<open>
  Whatever the field holds, a result of \<open>clamp\<close> is an integer between 0 and 100 or it
  is \<open>NaN\<close>; a finite number is rounded and clamped.
\<close>

lemma clamp_range:
  "clamp v = Inr n \<Longrightarrow> n = NaN \<or> (\<exists>k::int. n = Fin (of_int k) \<and> 0 \<le> k \<and> k \<le> 100)"
proof -
  assume a: "clamp v = Inr n"
  then obtain m where n: "n = Math_max (Fin 0) (Math_min (Fin 100) (Math_round m))"
    by (auto simp: clamp_def split: sum.splits)
  show ?thesis
  proof (cases m)
    case (Fin x)
    have "n = Fin (of_int (max 0 (min 100 \<lfloor>x + 1 / 2\<rfloor>)))"
      using n Fin by (simp add: max_def min_def)
    then show ?thesis by (intro disjI2 exI[of _ "max 0 (min 100 \<lfloor>x + 1 / 2\<rfloor>)"]) simp
  qed (use n in \<open>auto intro: exI[of _ 0] exI[of _ 100]\<close>)
qed

section \<open>Claim C1: scores of a scorecard\<close>

text \<open>
  Claim C1 says that each of the six numeric fields of a scorecard made by the
  parse-and-normalize step is an integer in \<open>[0,100]\<close> for every value the model can
  put there, texts that are no numbers included, so that no other value reaches
  storage. The code does not reach this: \<open>v || 0\<close> only replaces a falsy value, a
  text such as \<^verbatim>\<open>"abc"\<close> is truthy, \<^verbatim>\<open>Math.round\<close> turns it into \<open>NaN\<close>, and
  \<^verbatim>\<open>Math.min\<close> and \<^verbatim>\<open>Math.max\<close> pass \<open>NaN\<close> on. When the model answers
  \<^verbatim>\<open>{"overallScore": "abc", "decisionQuality": 80, ...}\<close> to the submission of the
  example application, the evaluation row that is stored has \<open>NaN\<close> as its overall
  score.
\<close>

theorem text_score_stored_as_NaN:
  "map overallScore (evaluations (snd (submit_route (the_scorer (env_with (Parsed text_score_reply)))
        (env_with (Parsed text_score_reply)) example_state ''app-1''))) = [NaN]"
  by (simp add: submit_route_def the_scorer_def evaluate_and_persist_def createEvaluation_def
      evaluation_row_def submitApplication_def updateApplicationStatus_def getApplication_def
      getJob_def getMessagesByApplication_def runEvaluationAgent_def evaluation_of_completion_def
      normalize_evaluation_def bind_exn_def clamp_abc clamp_Fin or_default_def array_or_empty_def
      Let_def example_defs)

section \<open>Claim C2: a failing evaluation does not fail the submission\<close>

text \<open>
  Claim C2: take a submission request for an application whose status is neither
  \<open>submitted\<close> nor \<open>evaluated\<close>, in which the application and its job are read and
  the status is set and the transcript is listed without a storage failure. Then the
  route answers with success whatever happens to the evaluation; the status ends as
  \<open>evaluated\<close> only if this request appended an evaluation row; and if the Scorer
  rejects, or the insertion of the evaluation throws (a storage failure, or the unique
  key finds a row for this application), the status ends as \<open>submitted\<close> and the
  evaluations table is unchanged.
\<close>

theorem submit_contains_scoring_failure:
  assumes "\<not> db_fails e GetApplication" "getApplication s appId = Some application"
    and "status application \<noteq> ''submitted''" "status application \<noteq> ''evaluated''"
    and "\<not> db_fails e GetJob" "getJob s (jobId application) = Some job"
    and "\<not> db_fails e SubmitApplication" "\<not> db_fails e GetMessages"
  shows "fst (submit_route sc e s appId) = (200, Msg ''Interview submitted successfully'')
    \<and> (map_option status (getApplication (snd (submit_route sc e s appId)) appId) = Some ''evaluated''
         \<longrightarrow> (\<exists>r. evaluations (snd (submit_route sc e s appId)) = evaluations s @ [evaluation_row appId r]))
    \<and> ((\<exists>x. snd (sc job (getMessagesByApplication s appId)) = Inl x)
          \<or> db_fails e CreateEvaluation
          \<or> list_ex (\<lambda>ev. eval_applicationId ev = appId) (evaluations s)
         \<longrightarrow> map_option status (getApplication (snd (submit_route sc e s appId)) appId) = Some ''submitted''
             \<and> evaluations (snd (submit_route sc e s appId)) = evaluations s)"
proof -
  let ?s1 = "submitApplication s appId (server_now e)"
  let ?h = "getMessagesByApplication s appId"
  have id: "app_id application = appId" using assms(2) by (rule getApplication_app_id)
  have eq: "submit_route sc e s appId =
     ((200, Msg ''Interview submitted successfully''),
      (if ?h \<noteq> [] then evaluate_and_persist sc e ?s1 application job ?h else ?s1))"
    using assms by (rule submit_route_open)
  have g1: "getApplication ?s1 appId = Some (application\<lparr>status := ''submitted'', submittedAt := Some (server_now e)\<rparr>)"
    using assms(2) id by (simp add: getApplication_submitApplication)
  have st1: "map_option status (getApplication ?s1 appId) = Some ''submitted''"
    by (simp add: g1)
  have a: "fst (submit_route sc e s appId) = (200, Msg ''Interview submitted successfully'')"
    by (simp add: eq)
  have b: "map_option status (getApplication (snd (submit_route sc e s appId)) appId) = Some ''evaluated''
         \<longrightarrow> (\<exists>r. evaluations (snd (submit_route sc e s appId)) = evaluations s @ [evaluation_row appId r])"
  proof (cases "?h = []")
    case True
    then show ?thesis by (simp add: eq g1)
  next
    case False
    have "getApplication ?s1 (app_id application) = Some (application\<lparr>status := ''submitted'', submittedAt := Some (server_now e)\<rparr>)"
      using g1 id by simp
    from evaluate_and_persist_status [OF this, of sc e job ?h] False
    show ?thesis by (auto simp: eq id)
  qed
  have c: "(\<exists>x. snd (sc job ?h) = Inl x) \<or> db_fails e CreateEvaluation
          \<or> list_ex (\<lambda>ev. eval_applicationId ev = appId) (evaluations s)
         \<longrightarrow> map_option status (getApplication (snd (submit_route sc e s appId)) appId) = Some ''submitted''
             \<and> evaluations (snd (submit_route sc e s appId)) = evaluations s"
  proof
    assume f: "(\<exists>x. snd (sc job ?h) = Inl x) \<or> db_fails e CreateEvaluation
          \<or> list_ex (\<lambda>ev. eval_applicationId ev = appId) (evaluations s)"
    then have "(\<exists>x. snd (sc job ?h) = Inl x) \<or> db_fails e CreateEvaluation
          \<or> list_ex (\<lambda>ev. eval_applicationId ev = app_id application) (evaluations ?s1)"
      by (simp add: id)
    then have "evaluate_and_persist sc e ?s1 application job ?h = ?s1\<lparr>sent := sent ?s1 @ fst (sc job ?h)\<rparr>"
      by (rule evaluate_and_persist_failure)
    then show "map_option status (getApplication (snd (submit_route sc e s appId)) appId) = Some ''submitted''
             \<and> evaluations (snd (submit_route sc e s appId)) = evaluations s"
      by (simp add: eq g1)
  qed
  from a b c show ?thesis by blast
qed

text \<open>The example application, submitted with a Scorer that rejects.\<close>

theorem submit_contains_scoring_failure_witness:
  "\<not> db_fails (env_with CallFailed) GetApplication
   \<and> getApplication example_state ''app-1'' = Some example_application
   \<and> status example_application \<noteq> ''submitted'' \<and> status example_application \<noteq> ''evaluated''
   \<and> \<not> db_fails (env_with CallFailed) GetJob
   \<and> getJob example_state (jobId example_application) = Some example_job
   \<and> \<not> db_fails (env_with CallFailed) SubmitApplication
   \<and> \<not> db_fails (env_with CallFailed) GetMessages
   \<and> snd (rejecting_scorer example_job (getMessagesByApplication example_state ''app-1'')) = Inl ServiceError
   \<and> fst (submit_route rejecting_scorer (env_with CallFailed) example_state ''app-1'')
       = (200, Msg ''Interview submitted successfully'')
   \<and> map_option status
        (getApplication (snd (submit_route rejecting_scorer (env_with CallFailed) example_state ''app-1'')) ''app-1'')
       = Some ''submitted''
   \<and> evaluations (snd (submit_route rejecting_scorer (env_with CallFailed) example_state ''app-1'')) = []"
proof -
  have f: "\<not> db_fails (env_with CallFailed) GetApplication" "\<not> db_fails (env_with CallFailed) GetJob"
    "\<not> db_fails (env_with CallFailed) SubmitApplication" "\<not> db_fails (env_with CallFailed) GetMessages"
    by (simp_all add: env_with_def no_faults_def)
  have o: "status example_application \<noteq> ''submitted''" "status example_application \<noteq> ''evaluated''"
    by (simp_all add: example_application_def)
  have r: "snd (rejecting_scorer example_job (getMessagesByApplication example_state ''app-1'')) = Inl ServiceError"
    by (simp add: rejecting_scorer_def)
  have e: "evaluations example_state = []" by (simp add: example_state_def)
  from submit_contains_scoring_failure [of "env_with CallFailed" example_state "''app-1''" example_application example_job rejecting_scorer,
           OF f(1) example_lookups(1) o f(2) example_lookups(2) f(3) f(4)] r
  have "fst (submit_route rejecting_scorer (env_with CallFailed) example_state ''app-1'')
       = (200, Msg ''Interview submitted successfully'')
   \<and> map_option status
        (getApplication (snd (submit_route rejecting_scorer (env_with CallFailed) example_state ''app-1'')) ''app-1'')
       = Some ''submitted''
   \<and> evaluations (snd (submit_route rejecting_scorer (env_with CallFailed) example_state ''app-1''))
       = evaluations example_state"
    by blast
  then show ?thesis using f o r example_lookups(1,2) unfolding e by blast
qed

section \<open>Claim C3: a second submission\<close>

text \<open>
  Claim C3: when the status of an application is already \<open>submitted\<close> or
  \<open>evaluated\<close>, a submission request leaves the whole state as it was (no evaluation
  row is added, the status is not changed) and, the application being read without a
  storage failure, is answered with the client error 400. And at most one evaluation
  for each application ever exists: if the evaluations table holds no two rows for one
  application, this is still so after any sequence of message, submission and status
  requests, in any environments.
\<close>

theorem second_submit_rejected_one_evaluation:
  "(getApplication s appId = Some application
      \<and> (status application = ''submitted'' \<or> status application = ''evaluated'')
    \<longrightarrow> snd (submit_route sc e s appId) = s
        \<and> (\<not> db_fails e GetApplication
             \<longrightarrow> fst (submit_route sc e s appId) = (400, Msg ''Interview already submitted'')))
   \<and> (distinct (map eval_applicationId (evaluations s0))
        \<longrightarrow> distinct (map eval_applicationId (evaluations (run tr s0))))"
  using submit_route_closed [where s = s and appId = appId and application = application and sc = sc and e = e]
    run_one_evaluation_each [of s0 tr]
  by (auto simp: one_evaluation_each_def)

text \<open>
  The evaluated application is submitted again, reopened by the recruiter and submitted
  once more.
\<close>

theorem second_submit_rejected_one_evaluation_witness:
  "getApplication evaluated_state ''app-1'' = Some evaluated_application
   \<and> status evaluated_application = ''evaluated''
   \<and> \<not> db_fails (env_with CallFailed) GetApplication
   \<and> distinct (map eval_applicationId (evaluations evaluated_state))
   \<and> submit_route (the_scorer (env_with CallFailed)) (env_with CallFailed) evaluated_state ''app-1''
       = ((400, Msg ''Interview already submitted''), evaluated_state)
   \<and> distinct (map eval_applicationId
        (evaluations (run [(env_with CallFailed, PostSubmit ''app-1''),
                           (env_with CallFailed, PatchStatus (Some ''recruiter-1'') ''app-1'' (Some ''in_progress'')),
                           (env_with CallFailed, PostSubmit ''app-1'')] evaluated_state)))"
proof -
  have st: "status evaluated_application = ''evaluated''"
    by (simp add: evaluated_application_def)
  have f: "\<not> db_fails (env_with CallFailed) GetApplication"
    by (simp add: env_with_def no_faults_def)
  have d: "distinct (map eval_applicationId (evaluations evaluated_state))"
    by (simp add: evaluated_state_def)
  from second_submit_rejected_one_evaluation [of evaluated_state "''app-1''" evaluated_application "the_scorer (env_with CallFailed)"
              "env_with CallFailed" evaluated_state
              "[(env_with CallFailed, PostSubmit ''app-1''),
                (env_with CallFailed, PatchStatus (Some ''recruiter-1'') ''app-1'' (Some ''in_progress'')),
                (env_with CallFailed, PostSubmit ''app-1'')]"]
    example_lookups(4) st f d
  have A: "snd (submit_route (the_scorer (env_with CallFailed)) (env_with CallFailed) evaluated_state ''app-1'')
            = evaluated_state"
    and B: "fst (submit_route (the_scorer (env_with CallFailed)) (env_with CallFailed) evaluated_state ''app-1'')
            = (400, Msg ''Interview already submitted'')"
    and D: "distinct (map eval_applicationId
        (evaluations (run [(env_with CallFailed, PostSubmit ''app-1''),
                           (env_with CallFailed, PatchStatus (Some ''recruiter-1'') ''app-1'' (Some ''in_progress'')),
                           (env_with CallFailed, PostSubmit ''app-1'')] evaluated_state)))"
    by blast+
  have E: "submit_route (the_scorer (env_with CallFailed)) (env_with CallFailed) evaluated_state ''app-1''
       = ((400, Msg ''Interview already submitted''), evaluated_state)"
    using A B by (metis prod.collapse)
  show ?thesis using example_lookups(4) st f d E D by blast
qed

section \<open>Claim C4: the fallback scorecard\<close>

text \<open>
  Claim C4: if the completion call of the Scorer fails, \<^verbatim>\<open>runEvaluationAgent\<close> returns
  the neutral scorecard: 50 for the overall score and for each of the five dimensions,
  the recommendation \<open>maybe\<close>, a summary saying that the evaluation could not be
  completed and that a manual review is recommended, and one placeholder each in the
  strengths and in the concerns.
\<close>

theorem scorer_fallback_on_failed_call:
  assumes "svc (evaluation_messages job conversationHistory) = CallFailed"
  shows "snd (runEvaluationAgent svc job conversationHistory) =
     \<lparr> overallScore = Fin 50,
       decisionQuality = Fin 50,
       communicationClarity = Fin 50,
       structuredProcess = Fin 50,
       riskAwareness = Fin 50,
       professionalJudgment = Fin 50,
       recommendation = JStr ''maybe'',
       summary = JStr ''The evaluation could not be fully completed due to a processing error. A manual review is recommended.'',
       strengths = [JStr ''Completed the interview simulation''],
       concerns = [JStr ''Automated evaluation encountered an error''] \<rparr>"
  using assms by (simp add: runEvaluationAgent_def evaluation_of_completion_def evaluation_fallback_def)

text \<open>The example transcript, scored by a service whose call fails.\<close>

theorem scorer_fallback_on_failed_call_witness:
  "reply_with CallFailed (evaluation_messages example_job example_history) = CallFailed
   \<and> overallScore (snd (runEvaluationAgent (reply_with CallFailed) example_job example_history)) = Fin 50
   \<and> recommendation (snd (runEvaluationAgent (reply_with CallFailed) example_job example_history)) = JStr ''maybe''
   \<and> length (strengths (snd (runEvaluationAgent (reply_with CallFailed) example_job example_history))) = 1
   \<and> length (concerns (snd (runEvaluationAgent (reply_with CallFailed) example_job example_history))) = 1"
proof -
  have h: "reply_with CallFailed (evaluation_messages example_job example_history) = CallFailed"
    by (simp add: reply_with_def)
  show ?thesis using h scorer_fallback_on_failed_call [of "reply_with CallFailed" example_job example_history] by simp
qed

section \<open>Claim C5: no message after the interview is closed\<close>

text \<open>
  Claim C5: a candidate message for an application whose status is \<open>submitted\<close> or
  \<open>evaluated\<close> changes nothing in the state (no message and no flag is created) and,
  the application being read without a storage failure, is answered with the client
  error 400; and a request that is answered with 200 was for an application whose
  status was neither \<open>submitted\<close> nor \<open>evaluated\<close>.
\<close>

theorem closed_interview_rejects_message:
  "(getApplication s appId = Some application
      \<and> (status application = ''submitted'' \<or> status application = ''evaluated'')
    \<longrightarrow> messages (snd (message_route e s appId co)) = messages s
        \<and> flags (snd (message_route e s appId co)) = flags s
        \<and> snd (message_route e s appId co) = s
        \<and> (\<not> db_fails e GetApplication
             \<longrightarrow> fst (message_route e s appId co) = (400, Msg ''Interview already submitted'')))
   \<and> (fst (fst (message_route e' s' appId' co')) = 200
        \<longrightarrow> (\<exists>a. getApplication s' appId' = Some a \<and> status a \<noteq> ''submitted'' \<and> status a \<noteq> ''evaluated''))"
  using message_route_closed [where s = s and appId = appId and application = application and e = e and co = co]
    message_route_accepted [of e' s' appId' co']
  by auto

text \<open>
  A message to the evaluated application is refused; a message to the example
  application, which is in progress, is accepted.
\<close>

theorem closed_interview_rejects_message_witness:
  "getApplication evaluated_state ''app-1'' = Some evaluated_application
   \<and> status evaluated_application = ''evaluated''
   \<and> \<not> db_fails (env_with (Parsed good_interview_reply)) GetApplication
   \<and> message_route (env_with (Parsed good_interview_reply)) evaluated_state ''app-1'' (Some ''One more thing'')
       = ((400, Msg ''Interview already submitted''), evaluated_state)
   \<and> fst (fst (message_route (env_with (Parsed good_interview_reply)) example_state ''app-1''
                 (Some ''Second answer''))) = 200
   \<and> status example_application \<noteq> ''submitted'' \<and> status example_application \<noteq> ''evaluated''"
proof -
  have st: "status evaluated_application = ''evaluated''"
    by (simp add: evaluated_application_def)
  have f: "\<not> db_fails (env_with (Parsed good_interview_reply)) GetApplication"
    by (simp add: env_with_def no_faults_def)
  have ok: "fst (fst (message_route (env_with (Parsed good_interview_reply)) example_state ''app-1''
                 (Some ''Second answer''))) = 200"
    by (rule example_turn_accepted)
  from closed_interview_rejects_message [of evaluated_state "''app-1''" evaluated_application "env_with (Parsed good_interview_reply)"
              "Some ''One more thing''" "env_with (Parsed good_interview_reply)" example_state "''app-1''"
              "Some ''Second answer''"]
    example_lookups(4) st f ok
  have A: "snd (message_route (env_with (Parsed good_interview_reply)) evaluated_state ''app-1''
                  (Some ''One more thing'')) = evaluated_state"
    and B: "fst (message_route (env_with (Parsed good_interview_reply)) evaluated_state ''app-1''
                  (Some ''One more thing'')) = (400, Msg ''Interview already submitted'')"
    and D: "\<exists>a. getApplication example_state ''app-1'' = Some a \<and> status a \<noteq> ''submitted''
                 \<and> status a \<noteq> ''evaluated''"
    by blast+
  have E: "message_route (env_with (Parsed good_interview_reply)) evaluated_state ''app-1'' (Some ''One more thing'')
       = ((400, Msg ''Interview already submitted''), evaluated_state)"
    using A B by (metis prod.collapse)
  from D have F: "status example_application \<noteq> ''submitted'' \<and> status example_application \<noteq> ''evaluated''"
    by (simp add: example_lookups(1))
  show ?thesis using example_lookups(4) st f ok E F by blast
qed

section \<open>Claim C6: the Conductor's reply, normalized\<close>

text \<open>
  Claim C6: when the reply of the completion service parses, the result of
  \<^verbatim>\<open>runInterviewAgent\<close> has the generic prompt \<^verbatim>\<open>Could you elaborate on that?\<close> as
  its message if the reply's message is empty (absent, the empty text or another falsy
  value) and the reply's message otherwise; it has no flags if the reply's flags are
  not a list; its stage is \<open>questioning\<close> if the reply's stage is not one of the four
  stages, and is always one of the four. In particular the reply
  \<^verbatim>\<open>{"assistant_message": "", "detected_flags": "not-an-array", "stage": "bogus"}\<close>
  gives the generic prompt, no flags and the stage \<open>questioning\<close>.
\<close>

theorem interview_reply_normalized:
  assumes "svc (interview_messages job h c) = Parsed kvs"
  shows \<open>(\<not> truthy (map_of kvs ''assistant_message'')
           \<longrightarrow> assistant_message (snd (runInterviewAgent svc job h c)) = JStr ''Could you elaborate on that?'')
    \<and> (truthy (map_of kvs ''assistant_message'')
           \<longrightarrow> Some (assistant_message (snd (runInterviewAgent svc job h c))) = map_of kvs ''assistant_message'')
    \<and> ((\<forall>xs. map_of kvs ''detected_flags'' \<noteq> Some (JArr xs))
           \<longrightarrow> detected_flags (snd (runInterviewAgent svc job h c)) = [])
    \<and> ((\<forall>t. map_of kvs ''stage'' = Some (JStr t)
               \<longrightarrow> t \<notin> {''introduction'', ''questioning'', ''follow_up'', ''closing''})
           \<longrightarrow> stage (snd (runInterviewAgent svc job h c)) = ''questioning'')
    \<and> stage (snd (runInterviewAgent svc job h c))
         \<in> {''introduction'', ''questioning'', ''follow_up'', ''closing''}
    \<and> (kvs = [(''assistant_message'', JStr []), (''detected_flags'', JStr ''not-an-array''),
               (''stage'', JStr ''bogus'')]
           \<longrightarrow> snd (runInterviewAgent svc job h c)
                 = \<lparr> assistant_message = JStr ''Could you elaborate on that?'', detected_flags = [],
                     stage = ''questioning'' \<rparr>)\<close>
proof -
  have r: "snd (runInterviewAgent svc job h c) = normalize_interview kvs"
    using assms by (simp add: runInterviewAgent_def interview_of_completion_def)
  have 1: "\<not> truthy v \<Longrightarrow> or_default v d = d" for v d by (simp add: or_default_def)
  have 2: "truthy v \<Longrightarrow> Some (or_default v d) = v" for v d by (cases v) (simp_all add: or_default_def)
  have 3: "(\<forall>xs. v \<noteq> Some (JArr xs)) \<Longrightarrow> array_or_empty v = []" for v
    by (auto simp: array_or_empty_def split: option.splits json.splits)
  have 4: "(\<forall>t. v = Some (JStr t) \<longrightarrow> t \<notin> {''introduction'', ''questioning'', ''follow_up'', ''closing''})
        \<Longrightarrow> stage_or_questioning v = ''questioning''" for v
    by (auto simp: stage_or_questioning_def split: option.splits json.splits)
  have 5: "stage_or_questioning v \<in> {''introduction'', ''questioning'', ''follow_up'', ''closing''}" for v
    by (auto simp: stage_or_questioning_def split: option.splits json.splits)
  have 6: "normalize_interview [(''assistant_message'', JStr []), (''detected_flags'', JStr ''not-an-array''),
               (''stage'', JStr ''bogus'')]
            = \<lparr> assistant_message = JStr ''Could you elaborate on that?'', detected_flags = [],
                     stage = ''questioning'' \<rparr>"
    by (simp add: normalize_interview_def or_default_def array_or_empty_def stage_or_questioning_def)
  show ?thesis
    unfolding r using 6
    by (auto simp add: normalize_interview_def Let_def 1 2 3 4 5 simp del: insert_iff)
qed

text \<open>The malformed reply, given to a turn of the example interview.\<close>

theorem interview_reply_normalized_witness:
  \<open>reply_with (Parsed malformed_interview_reply) (interview_messages example_job example_history ''Second answer'')
     = Parsed malformed_interview_reply
   \<and> malformed_interview_reply
       = [(''assistant_message'', JStr []), (''detected_flags'', JStr ''not-an-array''), (''stage'', JStr ''bogus'')]
   \<and> snd (runInterviewAgent (reply_with (Parsed malformed_interview_reply)) example_job example_history
            ''Second answer'')
       = \<lparr> assistant_message = JStr ''Could you elaborate on that?'', detected_flags = [],
           stage = ''questioning'' \<rparr>\<close>
proof -
  have a: "reply_with (Parsed malformed_interview_reply)
             (interview_messages example_job example_history ''Second answer'')
           = Parsed malformed_interview_reply"
    by (simp add: reply_with_def)
  have b: \<open>malformed_interview_reply
       = [(''assistant_message'', JStr []), (''detected_flags'', JStr ''not-an-array''), (''stage'', JStr ''bogus'')]\<close>
    by (simp add: malformed_interview_reply_def)
  from interview_reply_normalized [of "reply_with (Parsed malformed_interview_reply)" example_job example_history "''Second answer''" malformed_interview_reply] a b
  show ?thesis by blast
qed

section \<open>Claim C7: the question count and the closing condition in the prompt\<close>

text \<open>
  Claim C7 says that the closing condition written into the prompt is
  \<^verbatim>\<open>questionCount >= numQuestions - 1\<close> for every invocation. The prompt is built
  from \<^verbatim>\<open>maxQuestions = job.numQuestions || 8\<close>, and the server stores a job with a
  budget of 0: for such a job and two earlier interviewer turns the text sent reads
  \<^verbatim>\<open>(2 >= 7)\<close>, where \<^verbatim>\<open>numQuestions - 1\<close> is \<^verbatim>\<open>-1\<close>.
\<close>

theorem zero_budget_closing_threshold:
  \<open>numQuestions zero_budget_job = 0
   \<and> questionCount example_history = 2
   \<and> int_text (numQuestions zero_budget_job - 1) = ''-1''
   \<and> fst (runInterviewAgent (reply_with CallFailed) zero_budget_job example_history ''Second answer'') ! 0
       = (''system'',
          ''You are an AI interviewer conducting a workplace simulation interview for the role: "Support Engineer".'' @ ''\<newline>'' @
          ''\<newline>'' @
          ''Job Description: Handle escalations'' @ ''\<newline>'' @
          ''Simulation Type: problem_solving'' @ ''\<newline>'' @
          ''Seniority Level: mid'' @ ''\<newline>'' @
          ''Time Limit: 15 minutes'' @ ''\<newline>'' @
          ''Maximum Questions: 8'' @ ''\<newline>'' @
          ''Questions Asked So Far: 2'' @ ''\<newline>'' @
          ''\<newline>'' @
          ''Your role is to simulate real workplace scenarios and evaluate the candidate'' @ [CHR 0x27] @ ''s decision-making abilities. Follow these rules:'' @ ''\<newline>'' @
          ''1. Ask ONE question at a time based on realistic workplace scenarios relevant to this role'' @ ''\<newline>'' @
          ''2. Adapt your follow-up questions based on the candidate'' @ [CHR 0x27] @ ''s responses'' @ ''\<newline>'' @
          ''3. Watch for red flags: inconsistencies, evasiveness, lack of depth, unprofessional responses, poor judgment'' @ ''\<newline>'' @
          ''4. Be professional but probing - dig deeper when answers are vague'' @ ''\<newline>'' @
          ''5. If this is the first message (no prior conversation), introduce the simulation scenario and ask the first question'' @ ''\<newline>'' @
          ''6. If you'' @ [CHR 0x27] @ ''ve asked 8 or more questions, wrap up the interview gracefully'' @ ''\<newline>'' @
          ''\<newline>'' @
          ''Determine the current stage:'' @ ''\<newline>'' @
          ''- "introduction" if this is the first interaction'' @ ''\<newline>'' @
          ''- "questioning" if actively asking scenario questions'' @ ''\<newline>'' @
          ''- "follow_up" if probing deeper on a previous answer'' @ ''\<newline>'' @
          ''- "closing" if wrapping up (2 >= 7)'' @ ''\<newline>'' @
          ''\<newline>'' @
          ''You MUST respond with valid JSON in this exact format:'' @ ''\<newline>'' @
          ''{'' @ ''\<newline>'' @
          ''  "assistant_message": "Your message to the candidate",'' @ ''\<newline>'' @
          ''  "detected_flags": [{"severity": "low|medium|high", "category": "category name", "excerpt": "relevant quote or observation"}],'' @ ''\<newline>'' @
          ''  "stage": "introduction|questioning|follow_up|closing"'' @ ''\<newline>'' @
          ''}'' @ ''\<newline>'' @
          ''\<newline>'' @
          ''If no flags are detected, return an empty array for detected_flags.'')\<close>
  by (simp add: runInterviewAgent_def interview_messages_def interview_systemPrompt_def
      interview_prompt_lines_def questionCount_def maxQuestions_def simulationType_or_def
      seniorityLevel_or_def timeLimitMinutes_or_def nat_text.simps int_text_def digit_char_def
      zero_budget_job_def example_job_def example_history_def Let_def)

text \<open>
  Claim C7, amended: in every invocation of \<^verbatim>\<open>runInterviewAgent\<close> the first message
  of the request is the system prompt with the text below, in which the line
  \<^verbatim>\<open>Questions Asked So Far\<close> gives the number of assistant messages in the history
  it was called with (the turn being generated is not among them), and the closing rule
  reads \<^verbatim>\<open>(questionCount >= maxQuestions - 1)\<close> with the two numbers written out,
  where \<^verbatim>\<open>maxQuestions\<close> is the job's \<^verbatim>\<open>numQuestions\<close>, or 8 when that is 0. With a
  budget of 3 and two assistant messages the count is written 2, the threshold is
  written 2 and the condition holds; with an empty history the count is written 0.
\<close>

theorem prompt_question_count_and_closing:
  \<open>let n = length (filter (\<lambda>m. role m = ''assistant'') h);
       budget = (if numQuestions job = 0 then 8 else numQuestions job)
   in fst (runInterviewAgent svc job h c) ! 0
       = (''system'',
          ''You are an AI interviewer conducting a workplace simulation interview for the role: "'' @ title job @ ''".'' @ ''\<newline>'' @
          ''\<newline>'' @
          ''Job Description: '' @ description job @ ''\<newline>'' @
          ''Simulation Type: '' @ simulationType_or job @ ''\<newline>'' @
          ''Seniority Level: '' @ seniorityLevel_or job @ ''\<newline>'' @
          ''Time Limit: '' @ int_text (timeLimitMinutes_or job) @ '' minutes'' @ ''\<newline>'' @
          ''Maximum Questions: '' @ int_text budget @ ''\<newline>'' @
          ''Questions Asked So Far: '' @ nat_text n @ ''\<newline>'' @
          ''\<newline>'' @
          ''Your role is to simulate real workplace scenarios and evaluate the candidate'' @ [CHR 0x27] @ ''s decision-making abilities. Follow these rules:'' @ ''\<newline>'' @
          ''1. Ask ONE question at a time based on realistic workplace scenarios relevant to this role'' @ ''\<newline>'' @
          ''2. Adapt your follow-up questions based on the candidate'' @ [CHR 0x27] @ ''s responses'' @ ''\<newline>'' @
          ''3. Watch for red flags: inconsistencies, evasiveness, lack of depth, unprofessional responses, poor judgment'' @ ''\<newline>'' @
          ''4. Be professional but probing - dig deeper when answers are vague'' @ ''\<newline>'' @
          ''5. If this is the first message (no prior conversation), introduce the simulation scenario and ask the first question'' @ ''\<newline>'' @
          ''6. If you'' @ [CHR 0x27] @ ''ve asked '' @ int_text budget @ '' or more questions, wrap up the interview gracefully'' @ ''\<newline>'' @
          ''\<newline>'' @
          ''Determine the current stage:'' @ ''\<newline>'' @
          ''- "introduction" if this is the first interaction'' @ ''\<newline>'' @
          ''- "questioning" if actively asking scenario questions'' @ ''\<newline>'' @
          ''- "follow_up" if probing deeper on a previous answer'' @ ''\<newline>'' @
          ''- "closing" if wrapping up ('' @ nat_text n @ '' >= '' @ int_text (budget - 1) @ '')'' @ ''\<newline>'' @
          ''\<newline>'' @
          ''You MUST respond with valid JSON in this exact format:'' @ ''\<newline>'' @
          ''{'' @ ''\<newline>'' @
          ''  "assistant_message": "Your message to the candidate",'' @ ''\<newline>'' @
          ''  "detected_flags": [{"severity": "low|medium|high", "category": "category name", "excerpt": "relevant quote or observation"}],'' @ ''\<newline>'' @
          ''  "stage": "introduction|questioning|follow_up|closing"'' @ ''\<newline>'' @
          ''}'' @ ''\<newline>'' @
          ''\<newline>'' @
          ''If no flags are detected, return an empty array for detected_flags.'')
    \<and> (numQuestions job = 3 \<and> n = 2
         \<longrightarrow> nat_text n = ''2'' \<and> int_text (budget - 1) = ''2'' \<and> budget - 1 \<le> int n)
    \<and> (h = [] \<longrightarrow> nat_text n = ''0'')\<close>
proof -
  let ?n = "length (filter (\<lambda>m. role m = ''assistant'') h)"
  let ?b = "if numQuestions job = 0 then 8 else numQuestions job"
  have m: "maxQuestions job = ?b" by (simp add: maxQuestions_def)
  have t2: "nat_text 2 = ''2''" and t0: "nat_text 0 = ''0''" and i2: "int_text 2 = ''2''"
    by (simp_all add: nat_text.simps int_text_def digit_char_def)
  have p: \<open>fst (runInterviewAgent svc job h c) ! 0
       = (''system'',
          ''You are an AI interviewer conducting a workplace simulation interview for the role: "'' @ title job @ ''".'' @ ''\<newline>'' @
          ''\<newline>'' @
          ''Job Description: '' @ description job @ ''\<newline>'' @
          ''Simulation Type: '' @ simulationType_or job @ ''\<newline>'' @
          ''Seniority Level: '' @ seniorityLevel_or job @ ''\<newline>'' @
          ''Time Limit: '' @ int_text (timeLimitMinutes_or job) @ '' minutes'' @ ''\<newline>'' @
          ''Maximum Questions: '' @ int_text ?b @ ''\<newline>'' @
          ''Questions Asked So Far: '' @ nat_text ?n @ ''\<newline>'' @
          ''\<newline>'' @
          ''Your role is to simulate real workplace scenarios and evaluate the candidate'' @ [CHR 0x27] @ ''s decision-making abilities. Follow these rules:'' @ ''\<newline>'' @
          ''1. Ask ONE question at a time based on realistic workplace scenarios relevant to this role'' @ ''\<newline>'' @
          ''2. Adapt your follow-up questions based on the candidate'' @ [CHR 0x27] @ ''s responses'' @ ''\<newline>'' @
          ''3. Watch for red flags: inconsistencies, evasiveness, lack of depth, unprofessional responses, poor judgment'' @ ''\<newline>'' @
          ''4. Be professional but probing - dig deeper when answers are vague'' @ ''\<newline>'' @
          ''5. If this is the first message (no prior conversation), introduce the simulation scenario and ask the first question'' @ ''\<newline>'' @
          ''6. If you'' @ [CHR 0x27] @ ''ve asked '' @ int_text ?b @ '' or more questions, wrap up the interview gracefully'' @ ''\<newline>'' @
          ''\<newline>'' @
          ''Determine the current stage:'' @ ''\<newline>'' @
          ''- "introduction" if this is the first interaction'' @ ''\<newline>'' @
          ''- "questioning" if actively asking scenario questions'' @ ''\<newline>'' @
          ''- "follow_up" if probing deeper on a previous answer'' @ ''\<newline>'' @
          ''- "closing" if wrapping up ('' @ nat_text ?n @ '' >= '' @ int_text (?b - 1) @ '')'' @ ''\<newline>'' @
          ''\<newline>'' @
          ''You MUST respond with valid JSON in this exact format:'' @ ''\<newline>'' @
          ''{'' @ ''\<newline>'' @
          ''  "assistant_message": "Your message to the candidate",'' @ ''\<newline>'' @
          ''  "detected_flags": [{"severity": "low|medium|high", "category": "category name", "excerpt": "relevant quote or observation"}],'' @ ''\<newline>'' @
          ''  "stage": "introduction|questioning|follow_up|closing"'' @ ''\<newline>'' @
          ''}'' @ ''\<newline>'' @
          ''\<newline>'' @
          ''If no flags are detected, return an empty array for detected_flags.'')\<close>
    unfolding m [symmetric]
    by (simp add: runInterviewAgent_def interview_messages_def interview_systemPrompt_def
        interview_prompt_lines_def questionCount_def Let_def)
  have s3: "numQuestions job = 3 \<and> ?n = 2
         \<longrightarrow> nat_text ?n = ''2'' \<and> int_text (?b - 1) = ''2'' \<and> ?b - 1 \<le> int ?n"
    by (simp add: t2 i2)
  have s0: "h = [] \<longrightarrow> nat_text ?n = ''0''"
    by (simp add: t0)
  from p s3 s0 show ?thesis unfolding Let_def by blast
qed

text \<open>The example job has a budget of 3, the example transcript two interviewer turns.\<close>

theorem prompt_question_count_and_closing_witness:
  \<open>numQuestions example_job = 3
   \<and> questionCount example_history = 2
   \<and> numQuestions example_job - 1 \<le> int (questionCount example_history)
   \<and> fst (runInterviewAgent (reply_with CallFailed) example_job example_history ''Second answer'') ! 0
       = (''system'',
          ''You are an AI interviewer conducting a workplace simulation interview for the role: "Support Engineer".'' @ ''\<newline>'' @
          ''\<newline>'' @
          ''Job Description: Handle escalations'' @ ''\<newline>'' @
          ''Simulation Type: problem_solving'' @ ''\<newline>'' @
          ''Seniority Level: mid'' @ ''\<newline>'' @
          ''Time Limit: 15 minutes'' @ ''\<newline>'' @
          ''Maximum Questions: 3'' @ ''\<newline>'' @
          ''Questions Asked So Far: 2'' @ ''\<newline>'' @
          ''\<newline>'' @
          ''Your role is to simulate real workplace scenarios and evaluate the candidate'' @ [CHR 0x27] @ ''s decision-making abilities. Follow these rules:'' @ ''\<newline>'' @
          ''1. Ask ONE question at a time based on realistic workplace scenarios relevant to this role'' @ ''\<newline>'' @
          ''2. Adapt your follow-up questions based on the candidate'' @ [CHR 0x27] @ ''s responses'' @ ''\<newline>'' @
          ''3. Watch for red flags: inconsistencies, evasiveness, lack of depth, unprofessional responses, poor judgment'' @ ''\<newline>'' @
          ''4. Be professional but probing - dig deeper when answers are vague'' @ ''\<newline>'' @
          ''5. If this is the first message (no prior conversation), introduce the simulation scenario and ask the first question'' @ ''\<newline>'' @
          ''6. If you'' @ [CHR 0x27] @ ''ve asked 3 or more questions, wrap up the interview gracefully'' @ ''\<newline>'' @
          ''\<newline>'' @
          ''Determine the current stage:'' @ ''\<newline>'' @
          ''- "introduction" if this is the first interaction'' @ ''\<newline>'' @
          ''- "questioning" if actively asking scenario questions'' @ ''\<newline>'' @
          ''- "follow_up" if probing deeper on a previous answer'' @ ''\<newline>'' @
          ''- "closing" if wrapping up (2 >= 2)'' @ ''\<newline>'' @
          ''\<newline>'' @
          ''You MUST respond with valid JSON in this exact format:'' @ ''\<newline>'' @
          ''{'' @ ''\<newline>'' @
          ''  "assistant_message": "Your message to the candidate",'' @ ''\<newline>'' @
          ''  "detected_flags": [{"severity": "low|medium|high", "category": "category name", "excerpt": "relevant quote or observation"}],'' @ ''\<newline>'' @
          ''  "stage": "introduction|questioning|follow_up|closing"'' @ ''\<newline>'' @
          ''}'' @ ''\<newline>'' @
          ''\<newline>'' @
          ''If no flags are detected, return an empty array for detected_flags.'')\<close>
proof -
  have a: "numQuestions example_job = 3" by (simp add: example_job_def)
  have b: "length (filter (\<lambda>m. role m = ''assistant'') example_history) = 2"
    by (simp add: example_history_def)
  have q: "questionCount example_history = 2" by (simp add: questionCount_def b)
  have f: "title example_job = ''Support Engineer''" "description example_job = ''Handle escalations''"
    "simulationType_or example_job = ''problem_solving''" "seniorityLevel_or example_job = ''mid''"
    "int_text (timeLimitMinutes_or example_job) = ''15''" "int_text 3 = ''3''" "int_text 2 = ''2''"
    "nat_text 2 = ''2''"
    by (simp_all add: example_job_def simulationType_or_def seniorityLevel_or_def
        timeLimitMinutes_or_def nat_text.simps int_text_def digit_char_def)
  from prompt_question_count_and_closing [where job = example_job and h = example_history and svc = "reply_with CallFailed"
             and c = "''Second answer''"]
  have \<open>fst (runInterviewAgent (reply_with CallFailed) example_job example_history ''Second answer'') ! 0
       = (''system'',
          ''You are an AI interviewer conducting a workplace simulation interview for the role: "Support Engineer".'' @ ''\<newline>'' @
          ''\<newline>'' @
          ''Job Description: Handle escalations'' @ ''\<newline>'' @
          ''Simulation Type: problem_solving'' @ ''\<newline>'' @
          ''Seniority Level: mid'' @ ''\<newline>'' @
          ''Time Limit: 15 minutes'' @ ''\<newline>'' @
          ''Maximum Questions: 3'' @ ''\<newline>'' @
          ''Questions Asked So Far: 2'' @ ''\<newline>'' @
          ''\<newline>'' @
          ''Your role is to simulate real workplace scenarios and evaluate the candidate'' @ [CHR 0x27] @ ''s decision-making abilities. Follow these rules:'' @ ''\<newline>'' @
          ''1. Ask ONE question at a time based on realistic workplace scenarios relevant to this role'' @ ''\<newline>'' @
          ''2. Adapt your follow-up questions based on the candidate'' @ [CHR 0x27] @ ''s responses'' @ ''\<newline>'' @
          ''3. Watch for red flags: inconsistencies, evasiveness, lack of depth, unprofessional responses, poor judgment'' @ ''\<newline>'' @
          ''4. Be professional but probing - dig deeper when answers are vague'' @ ''\<newline>'' @
          ''5. If this is the first message (no prior conversation), introduce the simulation scenario and ask the first question'' @ ''\<newline>'' @
          ''6. If you'' @ [CHR 0x27] @ ''ve asked 3 or more questions, wrap up the interview gracefully'' @ ''\<newline>'' @
          ''\<newline>'' @
          ''Determine the current stage:'' @ ''\<newline>'' @
          ''- "introduction" if this is the first interaction'' @ ''\<newline>'' @
          ''- "questioning" if actively asking scenario questions'' @ ''\<newline>'' @
          ''- "follow_up" if probing deeper on a previous answer'' @ ''\<newline>'' @
          ''- "closing" if wrapping up (2 >= 2)'' @ ''\<newline>'' @
          ''\<newline>'' @
          ''You MUST respond with valid JSON in this exact format:'' @ ''\<newline>'' @
          ''{'' @ ''\<newline>'' @
          ''  "assistant_message": "Your message to the candidate",'' @ ''\<newline>'' @
          ''  "detected_flags": [{"severity": "low|medium|high", "category": "category name", "excerpt": "relevant quote or observation"}],'' @ ''\<newline>'' @
          ''  "stage": "introduction|questioning|follow_up|closing"'' @ ''\<newline>'' @
          ''}'' @ ''\<newline>'' @
          ''\<newline>'' @
          ''If no flags are detected, return an empty array for detected_flags.'')\<close>
    by (simp add: Let_def a b f)
  then show ?thesis using a q by simp
qed

section \<open>Claim C8: defaults of the Scorer's reply\<close>

text \<open>
  Claim C8 says that a recommendation that is not one of \<open>strong_hire\<close>, \<open>hire\<close>,
  \<open>maybe\<close>, \<open>no_hire\<close>, \<open>strong_no_hire\<close> is replaced by \<open>maybe\<close>. The Scorer
  only tests \<^verbatim>\<open>!parsed.recommendation\<close>: the recommendation
  \<^verbatim>\<open>definitely_hire\<close> is returned as it came.
\<close>

theorem unrecognized_recommendation_kept:
  "recommendation (snd (runEvaluationAgent (reply_with (Parsed odd_recommendation_reply))
        example_job example_history)) = JStr ''definitely_hire''
   \<and> recommendation (snd (runEvaluationAgent (reply_with (Parsed odd_recommendation_reply))
        example_job example_history)) \<noteq> JStr ''maybe''"
  by (simp add: runEvaluationAgent_def evaluation_of_completion_def normalize_evaluation_def
      bind_exn_def clamp_def or_default_def reply_with_def odd_recommendation_reply_def)

text \<open>
  Claim C8, amended: when the reply of the completion service parses and each of the
  six score fields converts to a number without an exception, a recommendation that is
  absent or otherwise falsy is replaced by \<open>maybe\<close> and any other recommendation,
  recognized or not, is kept; an absent or otherwise falsy summary is replaced by
  \<^verbatim>\<open>Evaluation completed.\<close>; strengths and concerns that are not lists are replaced
  by empty lists.
\<close>

theorem evaluation_reply_defaults:
  assumes "svc (evaluation_messages job h) = Parsed kvs"
    and "\<forall>k \<in> set [''overallScore'', ''decisionQuality'', ''communicationClarity'',
                     ''structuredProcess'', ''riskAwareness'', ''professionalJudgment''].
           \<exists>n. clamp (map_of kvs k) = Inr n"
  shows "(\<not> truthy (map_of kvs ''recommendation'')
           \<longrightarrow> recommendation (snd (runEvaluationAgent svc job h)) = JStr ''maybe'')
    \<and> (truthy (map_of kvs ''recommendation'')
           \<longrightarrow> Some (recommendation (snd (runEvaluationAgent svc job h))) = map_of kvs ''recommendation'')
    \<and> (\<not> truthy (map_of kvs ''summary'')
           \<longrightarrow> summary (snd (runEvaluationAgent svc job h)) = JStr ''Evaluation completed.'')
    \<and> ((\<forall>xs. map_of kvs ''strengths'' \<noteq> Some (JArr xs))
           \<longrightarrow> strengths (snd (runEvaluationAgent svc job h)) = [])
    \<and> ((\<forall>xs. map_of kvs ''concerns'' \<noteq> Some (JArr xs))
           \<longrightarrow> concerns (snd (runEvaluationAgent svc job h)) = [])"
proof -
  from assms(2) obtain n1 n2 n3 n4 n5 n6 where
    n: "clamp (map_of kvs ''overallScore'') = Inr n1"
       "clamp (map_of kvs ''decisionQuality'') = Inr n2"
       "clamp (map_of kvs ''communicationClarity'') = Inr n3"
       "clamp (map_of kvs ''structuredProcess'') = Inr n4"
       "clamp (map_of kvs ''riskAwareness'') = Inr n5"
       "clamp (map_of kvs ''professionalJudgment'') = Inr n6"
    by auto
  have 1: "\<not> truthy v \<Longrightarrow> or_default v d = d" for v d by (simp add: or_default_def)
  have 2: "truthy v \<Longrightarrow> Some (or_default v d) = v" for v d by (cases v) (simp_all add: or_default_def)
  have 3: "(\<forall>xs. v \<noteq> Some (JArr xs)) \<Longrightarrow> array_or_empty v = []" for v
    by (auto simp: array_or_empty_def split: option.splits json.splits)
  show ?thesis
    using assms(1)
    by (simp add: runEvaluationAgent_def evaluation_of_completion_def normalize_evaluation_def
        bind_exn_def n 1 2 3 Let_def)
qed

text \<open>
  A reply with an unrecognized recommendation, no summary, a text for the strengths and
  no concerns.
\<close>

theorem evaluation_reply_defaults_witness:
  "reply_with (Parsed odd_recommendation_reply) (evaluation_messages example_job example_history)
     = Parsed odd_recommendation_reply
   \<and> clamp (map_of odd_recommendation_reply ''overallScore'') = Inr (Fin 81)
   \<and> clamp (map_of odd_recommendation_reply ''decisionQuality'') = Inr (Fin 0)
   \<and> clamp (map_of odd_recommendation_reply ''communicationClarity'') = Inr (Fin 0)
   \<and> clamp (map_of odd_recommendation_reply ''structuredProcess'') = Inr (Fin 0)
   \<and> clamp (map_of odd_recommendation_reply ''riskAwareness'') = Inr (Fin 0)
   \<and> clamp (map_of odd_recommendation_reply ''professionalJudgment'') = Inr (Fin 0)
   \<and> truthy (map_of odd_recommendation_reply ''recommendation'')
   \<and> \<not> truthy (map_of odd_recommendation_reply ''summary'')
   \<and> recommendation (snd (runEvaluationAgent (reply_with (Parsed odd_recommendation_reply))
        example_job example_history)) = JStr ''definitely_hire''
   \<and> summary (snd (runEvaluationAgent (reply_with (Parsed odd_recommendation_reply))
        example_job example_history)) = JStr ''Evaluation completed.''
   \<and> strengths (snd (runEvaluationAgent (reply_with (Parsed odd_recommendation_reply))
        example_job example_history)) = []
   \<and> concerns (snd (runEvaluationAgent (reply_with (Parsed odd_recommendation_reply))
        example_job example_history)) = []"
proof -
  have a: "reply_with (Parsed odd_recommendation_reply) (evaluation_messages example_job example_history)
     = Parsed odd_recommendation_reply"
    by (simp add: reply_with_def)
  have b: "\<forall>k \<in> set [''overallScore'', ''decisionQuality'', ''communicationClarity'',
                     ''structuredProcess'', ''riskAwareness'', ''professionalJudgment''].
           \<exists>n. clamp (map_of odd_recommendation_reply k) = Inr n"
    by (simp add: odd_recommendation_reply_def clamp_def)
  have b6: "clamp (map_of odd_recommendation_reply ''overallScore'') = Inr (Fin 81)"
    "clamp (map_of odd_recommendation_reply ''decisionQuality'') = Inr (Fin 0)"
    "clamp (map_of odd_recommendation_reply ''communicationClarity'') = Inr (Fin 0)"
    "clamp (map_of odd_recommendation_reply ''structuredProcess'') = Inr (Fin 0)"
    "clamp (map_of odd_recommendation_reply ''riskAwareness'') = Inr (Fin 0)"
    "clamp (map_of odd_recommendation_reply ''professionalJudgment'') = Inr (Fin 0)"
    using clamp_int [of 81] by (simp_all add: odd_recommendation_reply_def clamp_def)
  have c: "truthy (map_of odd_recommendation_reply ''recommendation'')"
       "\<not> truthy (map_of odd_recommendation_reply ''summary'')"
       "\<forall>xs. map_of odd_recommendation_reply ''strengths'' \<noteq> Some (JArr xs)"
       "\<forall>xs. map_of odd_recommendation_reply ''concerns'' \<noteq> Some (JArr xs)"
       "map_of odd_recommendation_reply ''recommendation'' = Some (JStr ''definitely_hire'')"
    by (simp_all add: odd_recommendation_reply_def)
  from evaluation_reply_defaults [of "reply_with (Parsed odd_recommendation_reply)" example_job example_history odd_recommendation_reply] c a b
  have "recommendation (snd (runEvaluationAgent (reply_with (Parsed odd_recommendation_reply))
        example_job example_history)) = JStr ''definitely_hire''
   \<and> summary (snd (runEvaluationAgent (reply_with (Parsed odd_recommendation_reply))
        example_job example_history)) = JStr ''Evaluation completed.''
   \<and> strengths (snd (runEvaluationAgent (reply_with (Parsed odd_recommendation_reply))
        example_job example_history)) = []
   \<and> concerns (snd (runEvaluationAgent (reply_with (Parsed odd_recommendation_reply))
        example_job example_history)) = []"
    by simp
  then show ?thesis using a b6 c(1,2) by blast
qed

section \<open>Claim C9: the candidate's message in the request\<close>

text \<open>
  Claim C9: when a candidate message is accepted (the route answers 200) and the
  database stamps the new row later than the earlier messages of the application, the
  request sent to the completion service is the system prompt, then the earlier
  messages in order, then the candidate's message twice: once as the last row of the
  history, which the route listed after storing the message, and once more as the final
  user turn that \<^verbatim>\<open>runInterviewAgent\<close> appends.
\<close>

theorem candidate_message_sent_twice:
  assumes "fst (fst (message_route e s appId co)) = 200"
    and "\<forall>m \<in> set (messages s). applicationId m = appId \<longrightarrow> createdAt m < db_now e CreateUserMessage"
  shows "\<exists>application job c.
           getApplication s appId = Some application \<and> getJob s (jobId application) = Some job
         \<and> co = Some c
         \<and> sent (snd (message_route e s appId co)) = sent s @
             [(''system'',
               interview_systemPrompt job
                 (getMessagesByApplication s appId
                  @ [\<lparr> applicationId = appId, role = ''user'', content = c,
                        createdAt = db_now e CreateUserMessage \<rparr>]))
              # map (\<lambda>msg. (role msg, content msg)) (getMessagesByApplication s appId)
              @ [(''user'', c), (''user'', c)]]"
proof -
  obtain b s' where r: "message_route e s appId co = ((200, b), s')"
    using assms(1) by (cases "message_route e s appId co") auto
  then obtain application job c where
    app: "getApplication s appId = Some application" and job: "getJob s (jobId application) = Some job"
    and co: "co = Some c" and turn: "message_turn e s application job c = ((200, b), s')"
    by (auto simp: message_route_def split: option.splits if_splits)
  have id: "app_id application = appId" using app by (rule getApplication_app_id)
  let ?u = "\<lparr> applicationId = appId, role = ''user'', content = c, createdAt = db_now e CreateUserMessage \<rparr>"
  have h: "getMessagesByApplication (createMessage s ?u) appId = getMessagesByApplication s appId @ [?u]"
    using assms(2) by (intro getMessagesByApplication_createMessage) simp_all
  from message_turn_200 [OF turn]
  have "sent s' = sent s @ [interview_messages job (getMessagesByApplication s appId @ [?u]) c]"
    by (simp add: id h)
  then show ?thesis using app job co r by (simp add: interview_messages_def)
qed

text \<open>The candidate answers the second question of the example interview.\<close>

theorem candidate_message_sent_twice_witness:
  "fst (fst (message_route (env_with (Parsed good_interview_reply)) example_state ''app-1''
                 (Some ''Second answer''))) = 200
   \<and> map createdAt (messages example_state) = [1, 2, 3, 4]
   \<and> db_now (env_with (Parsed good_interview_reply)) CreateUserMessage = 10
   \<and> sent (snd (message_route (env_with (Parsed good_interview_reply)) example_state ''app-1''
                 (Some ''Second answer'')))
       = [(''system'', interview_systemPrompt example_job (example_history @ [next_message]))
          # map (\<lambda>msg. (role msg, content msg)) example_history
          @ [(''user'', ''Second answer''), (''user'', ''Second answer'')]]"
proof -
  have ok: "fst (fst (message_route (env_with (Parsed good_interview_reply)) example_state ''app-1''
                 (Some ''Second answer''))) = 200"
    by (rule example_turn_accepted)
  have t: "\<forall>m \<in> set (messages example_state).
         applicationId m = ''app-1'' \<longrightarrow> createdAt m < db_now (env_with (Parsed good_interview_reply)) CreateUserMessage"
    by (simp add: example_state_def example_history_def env_with_def at_time_def)
  have n: "\<lparr> applicationId = ''app-1'', role = ''user'', content = ''Second answer'',
             createdAt = db_now (env_with (Parsed good_interview_reply)) CreateUserMessage \<rparr> = next_message"
    by (simp add: next_message_def env_with_def at_time_def)
  have s0: "sent example_state = []" by (simp add: example_state_def)
  have t': "map createdAt (messages example_state) = [1, 2, 3, 4]"
    "db_now (env_with (Parsed good_interview_reply)) CreateUserMessage = 10"
    by (simp_all add: example_state_def example_history_def env_with_def at_time_def)
  from candidate_message_sent_twice [OF ok t]
  have "sent (snd (message_route (env_with (Parsed good_interview_reply)) example_state ''app-1''
                 (Some ''Second answer'')))
       = [(''system'', interview_systemPrompt example_job (example_history @ [next_message]))
          # map (\<lambda>msg. (role msg, content msg)) example_history
          @ [(''user'', ''Second answer''), (''user'', ''Second answer'')]]"
    by (auto simp add: example_lookups n s0)
  then show ?thesis using ok t' by blast
qed

section \<open>Claim C10: messages are listed in creation order\<close>

text \<open>
  Claim C10: the list that \<^verbatim>\<open>getMessagesByApplication\<close> returns holds exactly the
  messages of the application, in ascending creation time; when the creation times
  of these messages increase strictly in the order of insertion, it is the order of
  insertion; and a message created later than all of them is listed last, after the
  earlier list.
\<close>

theorem messages_listed_in_creation_order:
  "sorted (map createdAt (getMessagesByApplication s a))
   \<and> mset (getMessagesByApplication s a) = mset (filter (\<lambda>m. applicationId m = a) (messages s))
   \<and> (sorted_wrt (<) (map createdAt (filter (\<lambda>m. applicationId m = a) (messages s)))
        \<longrightarrow> getMessagesByApplication s a = filter (\<lambda>m. applicationId m = a) (messages s))
   \<and> (applicationId msg = a
        \<and> (\<forall>m \<in> set (messages s). applicationId m = a \<longrightarrow> createdAt m < createdAt msg)
        \<longrightarrow> getMessagesByApplication (createMessage s msg) a = getMessagesByApplication s a @ [msg])"
proof -
  have 1: "sorted (map createdAt (getMessagesByApplication s a))"
    by (simp add: getMessagesByApplication_def)
  have 2: "mset (getMessagesByApplication s a) = mset (filter (\<lambda>m. applicationId m = a) (messages s))"
    by (simp add: getMessagesByApplication_def)
  have 3: "sorted_wrt (<) (map createdAt (filter (\<lambda>m. applicationId m = a) (messages s)))
        \<longrightarrow> getMessagesByApplication s a = filter (\<lambda>m. applicationId m = a) (messages s)"
    by (simp add: getMessagesByApplication_def sort_key_id_if_sorted strict_sorted_imp_sorted)
  from 1 2 3 getMessagesByApplication_createMessage [of msg a s] show ?thesis by blast
qed

text \<open>The example transcript, and one more message appended to it.\<close>

theorem messages_listed_in_creation_order_witness:
  "sorted_wrt (<) (map createdAt (filter (\<lambda>m. applicationId m = ''app-1'') (messages example_state)))
   \<and> applicationId next_message = ''app-1''
   \<and> map createdAt (messages example_state) = [1, 2, 3, 4]
   \<and> createdAt next_message = 10
   \<and> getMessagesByApplication example_state ''app-1'' = example_history
   \<and> getMessagesByApplication (createMessage example_state next_message) ''app-1''
       = example_history @ [next_message]"
proof -
  have a: "sorted_wrt (<) (map createdAt (filter (\<lambda>m. applicationId m = ''app-1'') (messages example_state)))"
    by (simp add: example_state_def example_history_def)
  have b: "applicationId next_message = ''app-1''" by (simp add: next_message_def)
  have c: "\<forall>m \<in> set (messages example_state). applicationId m = ''app-1'' \<longrightarrow> createdAt m < createdAt next_message"
    by (simp add: example_state_def example_history_def next_message_def)
  have d: "filter (\<lambda>m. applicationId m = ''app-1'') (messages example_state) = example_history"
    by (simp add: example_state_def example_history_def)
  from messages_listed_in_creation_order [of example_state "''app-1''" next_message] a b c
  have "getMessagesByApplication example_state ''app-1''
          = filter (\<lambda>m. applicationId m = ''app-1'') (messages example_state)
        \<and> getMessagesByApplication (createMessage example_state next_message) ''app-1''
          = getMessagesByApplication example_state ''app-1'' @ [next_message]"
    by blast
  then have "getMessagesByApplication example_state ''app-1'' = example_history
        \<and> getMessagesByApplication (createMessage example_state next_message) ''app-1''
          = example_history @ [next_message]"
    by (simp add: d)
  moreover have "map createdAt (messages example_state) = [1, 2, 3, 4]" "createdAt next_message = 10"
    by (simp_all add: example_state_def example_history_def next_message_def)
  ultimately show ?thesis using a b by blast
qed

end
